theory Spec2Isabelle
  imports Complex_Main
begin

section \<open>Applying trained regRF models: a model of \<open>afids_regrf/apply.py\<close>\<close>

text \<open>
  The module has two functions of interest. \<open>apply_afid_model\<close> locates one fiducial:
  it asks the feature generator for the candidates of every (subject, fcsv) pair, loads
  the random-forest model of that fiducial, predicts one score per candidate, takes the
  index of the greatest score and maps that candidate's voxel to world coordinates.
  \<open>apply_all_afid_models\<close> calls it for the fiducials 1 to 32, stacks the results and
  hands the table, cast to integers, to the FCSV writer.

  Python exceptions are values of \<open>exn\<close>; a function that may raise returns
  \<open>exn + 'a\<close>. The functions imported from \<open>utils\<close>, the unpickled model and the
  contents of the files are parameters (the record \<open>env\<close>). Floating-point numbers are
  modelled as reals: rounding, infinities and NaN are outside the model. The two
  \<open>print\<close> calls of \<open>apply_afid_model\<close> write to standard output only and are left out.
\<close>

subsection \<open>Exceptions\<close>

text \<open>
  \<open>ValueError\<close>, \<open>IndexError\<close>, \<open>KeyError\<close>, \<open>TypeError\<close> and \<open>FileNotFoundError\<close> are
  Python's built-in exceptions. \<open>External msg\<close> is any exception raised inside a
  collaborator (\<open>get_fid\<close>, \<open>gen_features\<close>, the model's \<open>predict\<close>, \<open>np.load\<close>), which
  the module lets through unchanged. The last three constructors are the names of the
  specification's error taxonomy; the module defines no exception class of its own and
  has no \<open>raise\<close> statement, so they occur in no definition below.
\<close>

datatype exn =
    ValueError
  | IndexError
  | KeyError
  | TypeError
  | FileNotFoundError
  | External string
  | ModelNotFoundError
  | EmptyCandidateSetError
  | MismatchedInputLengthError

subsection \<open>Vectors and the affine transform\<close>

type_synonym vec3 = "real \<times> real \<times> real"
type_synonym mat3 = "vec3 \<times> vec3 \<times> vec3"
type_synonym row4 = "real \<times> real \<times> real \<times> real"
type_synonym affine = "row4 \<times> row4 \<times> row4 \<times> row4"

text \<open>\<open>aff[:3, :3]\<close>: the first three rows, and of each its first three entries.\<close>

fun rotation :: "affine \<Rightarrow> mat3" where
  "rotation ((a11, a12, a13, a14), (a21, a22, a23, a24), (a31, a32, a33, a34), r4) =
     ((a11, a12, a13), (a21, a22, a23), (a31, a32, a33))"

text \<open>\<open>aff[:3, 3]\<close>: the entry of index 3 of each of the first three rows.\<close>

fun translation :: "affine \<Rightarrow> vec3" where
  "translation ((a11, a12, a13, a14), (a21, a22, a23, a24), (a31, a32, a33, a34), r4) =
     (a14, a24, a34)"

text \<open>\<open>M.dot(v)\<close> for a 3x3 matrix and a vector of three entries.\<close>

fun dot :: "mat3 \<Rightarrow> vec3 \<Rightarrow> vec3" where
  "dot ((m11, m12, m13), (m21, m22, m23), (m31, m32, m33)) (x, y, z) =
     (m11 * x + m12 * y + m13 * z,
      m21 * x + m22 * y + m23 * z,
      m31 * x + m32 * y + m33 * z)"

fun vadd :: "vec3 \<Rightarrow> vec3 \<Rightarrow> vec3" where
  "vadd (x, y, z) (tx, ty, tz) = (x + tx, y + ty, z + tz)"

subsection \<open>The model's file name\<close>

definition digit_char :: "nat \<Rightarrow> char" where
  "digit_char d = ''0123456789'' ! d"

text \<open>Python's \<open>str\<close> of an integer: decimal digits, a minus sign when negative.\<close>

fun str_nat :: "nat \<Rightarrow> string" where
  "str_nat n = (if n < 10 then [digit_char n]
                else str_nat (n div 10) @ [digit_char (n mod 10)])"

declare str_nat.simps [simp del]

definition str_int :: "int \<Rightarrow> string" where
  "str_int i = (if i < 0 then CHR ''-'' # str_nat (nat (- i)) else str_nat (nat i))"

text \<open>
  \<open>s.zfill(width)\<close>: zeros are added on the left up to \<open>width\<close> characters, after a
  leading sign if there is one; a string already that long is returned as it is.
\<close>

definition zfill :: "nat \<Rightarrow> string \<Rightarrow> string" where
  "zfill width s =
     (if width \<le> length s then s
      else (case s of
              [] \<Rightarrow> replicate width CHR ''0''
            | c # rest \<Rightarrow>
                if c = CHR ''+'' \<or> c = CHR ''-''
                then c # replicate (width - length s) CHR ''0'' @ rest
                else replicate (width - length s) CHR ''0'' @ s))"

text \<open>
  Line 45:
  \<^verbatim>\<open>f"afid-{str(afid_num).zfill(2)}_desc-rf_sampleRate-iso{sampling_rate}vox_model.joblib"\<close>
\<close>

definition model_fname :: "int \<Rightarrow> int \<Rightarrow> string" where
  "model_fname afid_num sampling_rate =
     ''afid-'' @ zfill 2 (str_int afid_num) @ ''_desc-rf_sampleRate-iso''
       @ str_int sampling_rate @ ''vox_model.joblib''"

subsection \<open>The collaborators and the world\<close>

text \<open>
  A trained model is what its \<open>predict\<close> method computes: from the feature-difference
  vectors to one score each, or an exception.
\<close>

type_synonym 'f model = "'f list \<Rightarrow> string + real list"

text \<open>
  \<^item> \<open>get_fid fcsv_path i\<close> and
    \<open>gen_features subject_path fid feature_offsets padding sampling_rate size predict\<close>
    are the functions imported from \<open>utils\<close>; in prediction mode the latter returns the
    triple (affine transform, feature differences, candidate voxels);
  \<^item> \<open>model_files dir name\<close> is the model that \<open>joblib.load(Path(dir) / name)\<close> returns,
    \<open>None\<close> when there is no such file;
  \<^item> \<open>np_load path\<close> is the archive \<open>np.load(path)\<close> opens, a dictionary of arrays;
  \<^item> \<open>np_empty\<close> is what the uninitialised array \<open>np.empty((3, ), dtype=float)\<close>
    happens to hold.
\<close>

record ('f, 'o, 'p) env =
  get_fid :: "string \<Rightarrow> int \<Rightarrow> string + 'p"
  gen_features :: "string \<Rightarrow> 'p \<Rightarrow> 'o \<times> 'o \<Rightarrow> int \<Rightarrow> int \<Rightarrow> int \<Rightarrow> bool
                     \<Rightarrow> string + (affine \<times> 'f list \<times> vec3 list)"
  model_files :: "string \<Rightarrow> string \<Rightarrow> 'f model option"
  np_load :: "string \<Rightarrow> string + (string \<Rightarrow> 'o option)"
  np_empty :: vec3

text \<open>
  What a run leaves behind: the model files it tried to open, in order (directory and
  file name), and the tables passed to \<open>afids_to_fcsv\<close>.
\<close>

record world =
  opened :: "(string \<times> string) list"
  fcsv_out :: "(int \<times> int \<times> int) list list"

subsection \<open>The chained generator and its unpacking\<close>

text \<open>
  Lines 30 to 41 unpack \<open>it.chain.from_iterable(gen_features(...) for ... in zip(...))\<close>
  into three names. The chain yields the members of each returned tuple in turn, so an
  item is a transform, a feature array or a voxel array.
\<close>

datatype 'f item = Aff affine | Diff "'f list" | Samples "vec3 list"

text \<open>
  The body of the generator expression for one pair of \<open>zip(subject_paths, fcsv_paths)\<close>:
  the members of the tuple that \<open>gen_features\<close> returns.
\<close>

definition features_of ::
  "('f, 'o, 'p) env \<Rightarrow> int \<Rightarrow> 'o \<times> 'o \<Rightarrow> int \<Rightarrow> int \<Rightarrow> int \<Rightarrow> string \<times> string
     \<Rightarrow> exn + 'f item list" where
  "features_of E afid_num feature_offsets padding sampling_rate size' pr =
     (case get_fid E (snd pr) (afid_num - 1) of
        Inl msg \<Rightarrow> Inl (External msg)
      | Inr fid \<Rightarrow>
          (case gen_features E (fst pr) fid feature_offsets padding sampling_rate size' True of
             Inl msg \<Rightarrow> Inl (External msg)
           | Inr (aff, diff, samples) \<Rightarrow> Inr [Aff aff, Diff diff, Samples samples]))"

text \<open>
  The iterator is lazy. Its state is the rest of the tuple being yielded and the pairs
  not yet visited; \<open>chain_next\<close> is one call of \<open>next\<close>: an item and the new state,
  \<open>None\<close> at exhaustion, or the exception of the generator's body.
\<close>

fun chain_next ::
  "('a \<Rightarrow> exn + 'b list) \<Rightarrow> 'b list \<times> 'a list \<Rightarrow> exn + ('b \<times> 'b list \<times> 'a list) option" where
  "chain_next g (x # buf, ps) = Inr (Some (x, buf, ps))"
| "chain_next g ([], []) = Inr None"
| "chain_next g ([], p # ps) =
     (case g p of Inl e \<Rightarrow> Inl e | Inr t \<Rightarrow> chain_next g (t, ps))"

text \<open>
  \<open>a, b, c = iterator\<close>: three items are taken, each missing one is a \<open>ValueError\<close>
  (not enough values to unpack); then \<open>next\<close> is called once more, and a fourth item
  is a \<open>ValueError\<close> (too many values to unpack).
\<close>

definition unpack3 ::
  "('a \<Rightarrow> exn + 'b list) \<Rightarrow> 'b list \<times> 'a list \<Rightarrow> exn + ('b \<times> 'b \<times> 'b)" where
  "unpack3 g it0 =
     (case chain_next g it0 of
        Inl e \<Rightarrow> Inl e
      | Inr None \<Rightarrow> Inl ValueError
      | Inr (Some (x, it1)) \<Rightarrow>
     (case chain_next g it1 of
        Inl e \<Rightarrow> Inl e
      | Inr None \<Rightarrow> Inl ValueError
      | Inr (Some (y, it2)) \<Rightarrow>
     (case chain_next g it2 of
        Inl e \<Rightarrow> Inl e
      | Inr None \<Rightarrow> Inl ValueError
      | Inr (Some (z, it3)) \<Rightarrow>
     (case chain_next g it3 of
        Inl e \<Rightarrow> Inl e
      | Inr None \<Rightarrow> Inr (x, y, z)
      | Inr (Some extra) \<Rightarrow> Inl ValueError))))"

text \<open>
  Python binds the three names to whatever the iterator yields. In the model the use of
  a name as a transform, a feature array or a voxel array is a check of the item's
  kind; \<open>TypeError\<close> stands for the failure of a wrongly bound name.
\<close>

fun typed3 :: "'f item \<times> 'f item \<times> 'f item \<Rightarrow> exn + (affine \<times> 'f list \<times> vec3 list)" where
  "typed3 (Aff aff, Diff diff, Samples samples) = Inr (aff, diff, samples)"
| "typed3 other = Inl TypeError"

subsection \<open>The greatest score\<close>

text \<open>
  \<open>Series.idxmax()\<close> on the default integer index: the position of the first occurrence
  of the maximum, found by a scan from the left that replaces the best value only by a
  strictly greater one; \<open>ValueError\<close> on an empty series.
\<close>

fun argmax_scan :: "real list \<Rightarrow> nat \<Rightarrow> nat \<Rightarrow> real \<Rightarrow> nat" where
  "argmax_scan [] i best v = best"
| "argmax_scan (x # xs) i best v =
     (if v < x then argmax_scan xs (Suc i) i x else argmax_scan xs (Suc i) best v)"

definition idxmax :: "real list \<Rightarrow> exn + nat" where
  "idxmax xs = (case xs of [] \<Rightarrow> Inl ValueError | x # rest \<Rightarrow> Inr (argmax_scan rest 1 0 x))"

text \<open>\<open>samples[idx]\<close> for an index that is not negative: \<open>IndexError\<close> out of range.\<close>

definition getitem :: "'a list \<Rightarrow> nat \<Rightarrow> exn + 'a" where
  "getitem xs i = (if i < length xs then Inr (xs ! i) else Inl IndexError)"

subsection \<open>\<open>apply_afid_model\<close>\<close>

definition apply_afid_model ::
  "('f, 'o, 'p) env \<Rightarrow> int \<Rightarrow> string list \<Rightarrow> string list \<Rightarrow> string \<Rightarrow> 'o \<times> 'o
     \<Rightarrow> int \<Rightarrow> int \<Rightarrow> int \<Rightarrow> world \<Rightarrow> (exn + vec3) \<times> world" where
  "apply_afid_model E afid_num subject_paths fcsv_paths model_dir_path feature_offsets
       padding sampling_rate size' w =
     (case unpack3 (features_of E afid_num feature_offsets padding sampling_rate size')
             ([], zip subject_paths fcsv_paths) of
        Inl e \<Rightarrow> (Inl e, w)
      | Inr names \<Rightarrow>
     (let fname = model_fname afid_num sampling_rate;
          w' = w\<lparr>opened := opened w @ [(model_dir_path, fname)]\<rparr>
      in case model_files E model_dir_path fname of
        None \<Rightarrow> (Inl FileNotFoundError, w')
      | Some regr_rf \<Rightarrow>
     (case typed3 names of
        Inl e \<Rightarrow> (Inl e, w')
      | Inr (aff, diff, samples) \<Rightarrow>
     (case regr_rf diff of
        Inl msg \<Rightarrow> (Inl (External msg), w')
      | Inr dist_predict \<Rightarrow>
     (case idxmax dist_predict of
        Inl e \<Rightarrow> (Inl e, w')
      | Inr idx \<Rightarrow>
     (case getitem samples idx of
        Inl e \<Rightarrow> (Inl e, w')
      | Inr voxel \<Rightarrow>
          (Inr (vadd (dot (rotation aff) voxel) (translation aff)), w')))))))"

subsection \<open>\<open>apply_all_afid_models\<close>\<close>

text \<open>
  \<open>astype(int)\<close> on a float array is the C conversion from double to a signed 64-bit
  integer. A value fits when, with its fractional part discarded, it lies between
  \<open>-2^63\<close> and \<open>2^63 - 1\<close>; the result is then that integer (truncation toward zero).
  For a value that does not fit the conversion has no defined result in C; numpy on
  x86-64 stores the least 64-bit integer, \<open>-2^63\<close>, and so does the model. NaN and the
  infinities, which the code converts to \<open>-2^63\<close> as well, are not real numbers and not
  values of the model.
\<close>

definition fits_int64 :: "real \<Rightarrow> bool" where
  "fits_int64 x = (- (2 ^ 63) - 1 < x \<and> x < 2 ^ 63)"

definition astype_int :: "real \<Rightarrow> int" where
  "astype_int x =
     (if fits_int64 x then (if 0 \<le> x then \<lfloor>x\<rfloor> else \<lceil>x\<rceil>) else - (2 ^ 63))"

fun astype_int_row :: "vec3 \<Rightarrow> int \<times> int \<times> int" where
  "astype_int_row (x, y, z) = (astype_int x, astype_int y, astype_int z)"

text \<open>\<open>feature_offsets["arr_0"]\<close>: \<open>KeyError\<close> when the archive has no such array.\<close>

definition npz_get :: "(string \<Rightarrow> 'o option) \<Rightarrow> string \<Rightarrow> exn + 'o" where
  "npz_get archive key = (case archive key of None \<Rightarrow> Inl KeyError | Some a \<Rightarrow> Inr a)"

text \<open>
  The \<open>for\<close> loop of lines 75 to 86 over the fiducial numbers still to do; the
  accumulator is \<open>all_afids_coords\<close>, a list of rows, and \<open>np.vstack\<close> appends one. The
  call passes its arguments by position, in the order
  \<open>padding, size, sampling_rate\<close>.
\<close>

fun afid_loop ::
  "('f, 'o, 'p) env \<Rightarrow> string list \<Rightarrow> string list \<Rightarrow> string \<Rightarrow> (string \<Rightarrow> 'o option)
     \<Rightarrow> int \<Rightarrow> int \<Rightarrow> int \<Rightarrow> int list \<Rightarrow> vec3 list \<Rightarrow> world \<Rightarrow> (exn + vec3 list) \<times> world" where
  "afid_loop E subject_paths fcsv_paths model_dir_path feature_offsets padding size'
       sampling_rate [] all_afids_coords w = (Inr all_afids_coords, w)"
| "afid_loop E subject_paths fcsv_paths model_dir_path feature_offsets padding size'
       sampling_rate (afid_num # todo) all_afids_coords w =
     (case npz_get feature_offsets ''arr_0'' of
        Inl e \<Rightarrow> (Inl e, w)
      | Inr arr_0 \<Rightarrow>
     (case npz_get feature_offsets ''arr_1'' of
        Inl e \<Rightarrow> (Inl e, w)
      | Inr arr_1 \<Rightarrow>
     (case apply_afid_model E afid_num subject_paths fcsv_paths model_dir_path
             (arr_0, arr_1) padding size' sampling_rate w of
        (Inl e, w') \<Rightarrow> (Inl e, w')
      | (Inr afid_coords, w') \<Rightarrow>
          afid_loop E subject_paths fcsv_paths model_dir_path feature_offsets padding size'
            sampling_rate todo (all_afids_coords @ [afid_coords]) w')))"

text \<open>
  \<open>range(1, 33)\<close> is \<open>[1..32]\<close>. The first row, the uninitialised one, is dropped by
  \<open>[1:]\<close> before the cast. Passing the table to \<open>afids_to_fcsv\<close> is recorded in
  \<open>fcsv_out\<close>.
\<close>

definition apply_all_afid_models ::
  "('f, 'o, 'p) env \<Rightarrow> string list \<Rightarrow> string list \<Rightarrow> string \<Rightarrow> string
     \<Rightarrow> int \<Rightarrow> int \<Rightarrow> int \<Rightarrow> world \<Rightarrow> (exn + unit) \<times> world" where
  "apply_all_afid_models E subject_paths fcsv_paths feature_offsets_path model_dir_path
       padding size' sampling_rate w =
     (case np_load E feature_offsets_path of
        Inl msg \<Rightarrow> (Inl (External msg), w)
      | Inr feature_offsets \<Rightarrow>
     (case afid_loop E subject_paths fcsv_paths model_dir_path feature_offsets padding size'
             sampling_rate [1..32] [np_empty E] w of
        (Inl e, w') \<Rightarrow> (Inl e, w')
      | (Inr all_afids_coords, w') \<Rightarrow>
          (Inr (), w'\<lparr>fcsv_out := fcsv_out w' @ [map astype_int_row (tl all_afids_coords)]\<rparr>)))"

subsection \<open>Truncation, as a property\<close>

text \<open>
  An integer \<open>k\<close> is the real \<open>x\<close> truncated toward zero when it is no further from
  zero than \<open>x\<close> and less than one away from \<open>x\<close>. Rounding to the nearest integer is
  \<^const>\<open>round\<close>.
\<close>

definition truncation_toward_zero :: "real \<Rightarrow> int \<Rightarrow> bool" where
  "truncation_toward_zero x k =
     (\<bar>real_of_int k\<bar> \<le> \<bar>x\<bar> \<and> \<bar>x - real_of_int k\<bar> < 1)"

subsection \<open>Stub collaborators for concrete runs\<close>

text \<open>
  A feature generator that returns, for any subject, the three candidate voxels
  (1,1,1), (2,2,2), (3,3,3) under the identity transform; a model that scores them
  0.1, 0.9, 0.4; a model directory that has every file; an offsets archive that has
  every array.
\<close>

definition identity_affine :: affine where
  "identity_affine = ((1, 0, 0, 0), (0, 1, 0, 0), (0, 0, 1, 0), (0, 0, 0, 1))"

definition stub_model :: "unit model" where
  "stub_model diff = Inr [0.1, 0.9, 0.4]"

definition stub_env :: "(unit, unit, unit) env" where
  "stub_env =
     \<lparr>get_fid = (\<lambda>fcsv_path i. Inr ()),
      gen_features = (\<lambda>subject_path fid feature_offsets padding sampling_rate size' predict.
         Inr (identity_affine, [(), (), ()], [(1, 1, 1), (2, 2, 2), (3, 3, 3)])),
      model_files = (\<lambda>dir name. Some stub_model),
      np_load = (\<lambda>path. Inr (\<lambda>key. Some ())),
      np_empty = (0, 0, 0)\<rparr>"

definition fresh_world :: world where
  "fresh_world = \<lparr>opened = [], fcsv_out = []\<rparr>"

text \<open>The same with an empty model directory.\<close>

definition no_models_env :: "(unit, unit, unit) env" where
  "no_models_env = stub_env\<lparr>model_files := (\<lambda>dir name. None)\<rparr>"

text \<open>
  The same with a model directory that holds, for the sampling rate \<open>r\<close>, the 32 files
  \<open>afid-NN_desc-rf_sampleRate-iso{r}vox_model.joblib\<close> and nothing else.
\<close>

definition rate_named_env :: "int \<Rightarrow> (unit, unit, unit) env" where
  "rate_named_env r =
     stub_env\<lparr>model_files := (\<lambda>dir name.
        if name \<in> set (map (\<lambda>afid_num. model_fname afid_num r) [1..32])
        then Some stub_model else None)\<rparr>"

text \<open>The same with a feature generator that finds no candidate.\<close>

definition no_candidates_env :: "(unit, unit, unit) env" where
  "no_candidates_env =
     stub_env\<lparr>gen_features :=
        (\<lambda>subject_path fid feature_offsets padding sampling_rate size' predict.
           Inr (identity_affine, [], [])),
      model_files := (\<lambda>dir name. Some (\<lambda>diff. Inr []))\<rparr>"

text \<open>The same with a transform that shifts the voxel by (0.9, -3.7, 0.5).\<close>

definition shifted_affine :: affine where
  "shifted_affine = ((1, 0, 0, 0.9), (0, 1, 0, - 3.7), (0, 0, 1, 0.5), (0, 0, 0, 1))"

definition shifted_env :: "(unit, unit, unit) env" where
  "shifted_env =
     stub_env\<lparr>gen_features :=
        (\<lambda>subject_path fid feature_offsets padding sampling_rate size' predict.
           Inr (shifted_affine, [(), (), ()], [(1, 1, 1), (2, 2, 2), (3, 3, 3)]))\<rparr>"

text \<open>The same with a transform whose first axis has a voxel size of 5e18.\<close>

definition huge_affine :: affine where
  "huge_affine = ((5000000000000000000, 0, 0, 0), (0, 1, 0, 0), (0, 0, 1, 0), (0, 0, 0, 1))"

definition huge_env :: "(unit, unit, unit) env" where
  "huge_env =
     stub_env\<lparr>gen_features :=
        (\<lambda>subject_path fid feature_offsets padding sampling_rate size' predict.
           Inr (huge_affine, [(), (), ()], [(1, 1, 1), (2, 2, 2), (3, 3, 3)]))\<rparr>"

section \<open>Lemmas\<close>

subsection \<open>The greatest score\<close>

lemma argmax_scan_inv:
  assumes "i = length ys" "best < length ys" "ys ! best = v"
    and "\<forall>j<length ys. ys ! j \<le> v" and "\<forall>j<best. ys ! j < v"
  shows "argmax_scan xs i best v < length (ys @ xs)
       \<and> (\<forall>j<length (ys @ xs). (ys @ xs) ! j \<le> (ys @ xs) ! argmax_scan xs i best v)
       \<and> (\<forall>j<argmax_scan xs i best v. (ys @ xs) ! j < (ys @ xs) ! argmax_scan xs i best v)"
  using assms
proof (induction xs arbitrary: ys i best v)
  case Nil
  then show ?case by simp
next
  case (Cons x xs)
  show ?case
  proof (cases "v < x")
    case True
    have a: "Suc i = length (ys @ [x])" using Cons.prems(1) by simp
    have b: "i < length (ys @ [x])" using Cons.prems(1) by simp
    have c: "(ys @ [x]) ! i = x" using Cons.prems(1) by simp
    have d: "\<forall>j<length (ys @ [x]). (ys @ [x]) ! j \<le> x"
      using Cons.prems(4) True by (auto simp: nth_append less_Suc_eq)
    have e: "\<forall>j<i. (ys @ [x]) ! j < x"
      using Cons.prems(1,4) True by (auto simp: nth_append)
    from Cons.IH [OF a b c d e] True show ?thesis by simp
  next
    case False
    have a: "Suc i = length (ys @ [x])" using Cons.prems(1) by simp
    have b: "best < length (ys @ [x])" using Cons.prems(2) by simp
    have c: "(ys @ [x]) ! best = v" using Cons.prems(2,3) by (simp add: nth_append)
    have d: "\<forall>j<length (ys @ [x]). (ys @ [x]) ! j \<le> v"
      using Cons.prems(4) False by (auto simp: nth_append less_Suc_eq)
    have e: "\<forall>j<best. (ys @ [x]) ! j < v"
      using Cons.prems(2,5) by (auto simp: nth_append)
    from Cons.IH [OF a b c d e] False show ?thesis by simp
  qed
qed

lemma idxmax_empty: "idxmax [] = Inl ValueError"
  by (simp add: idxmax_def)

lemma idxmax_total: "xs \<noteq> [] \<Longrightarrow> \<exists>k. idxmax xs = Inr k"
  by (cases xs) (simp_all add: idxmax_def)

lemma idxmax_sound:
  assumes "idxmax xs = Inr k"
  shows "k < length xs \<and> (\<forall>j<length xs. xs ! j \<le> xs ! k) \<and> (\<forall>j<k. xs ! j < xs ! k)"
proof (cases xs)
  case Nil
  with assms show ?thesis by (simp add: idxmax_def)
next
  case (Cons x rest)
  with assms have k: "k = argmax_scan rest 1 0 x" by (simp add: idxmax_def)
  have "argmax_scan rest 1 0 x < length ([x] @ rest)
       \<and> (\<forall>j<length ([x] @ rest). ([x] @ rest) ! j \<le> ([x] @ rest) ! argmax_scan rest 1 0 x)
       \<and> (\<forall>j<argmax_scan rest 1 0 x. ([x] @ rest) ! j < ([x] @ rest) ! argmax_scan rest 1 0 x)"
    by (rule argmax_scan_inv) simp_all
  with k Cons show ?thesis by simp
qed

lemma first_max_unique:
  fixes xs :: "real list"
  assumes "k < length xs" "\<forall>j<length xs. xs ! j \<le> xs ! k" "\<forall>j<k. xs ! j < xs ! k"
    and "k' < length xs" "\<forall>j<length xs. xs ! j \<le> xs ! k'" "\<forall>j<k'. xs ! j < xs ! k'"
  shows "k = k'"
proof (rule ccontr)
  assume "k \<noteq> k'"
  then consider "k < k'" | "k' < k" by linarith
  then show False
  proof cases
    case 1
    with assms(6) have "xs ! k < xs ! k'" by simp
    moreover from assms(2,4) have "xs ! k' \<le> xs ! k" by simp
    ultimately show False by simp
  next
    case 2
    with assms(3) have "xs ! k' < xs ! k" by simp
    moreover from assms(5,1) have "xs ! k \<le> xs ! k'" by simp
    ultimately show False by simp
  qed
qed

lemma idxmax_first_max:
  assumes "k < length xs" "\<forall>j<length xs. xs ! j \<le> xs ! k" "\<forall>j<k. xs ! j < xs ! k"
  shows "idxmax xs = Inr k"
proof -
  from assms(1) have "xs \<noteq> []" by auto
  then obtain k' where k': "idxmax xs = Inr k'" using idxmax_total by blast
  from idxmax_sound [OF k'] assms have "k = k'"
    using first_max_unique [of k xs k'] by blast
  with k' show ?thesis by simp
qed

lemma idxmax_unique_max:
  assumes "k < length xs" "\<forall>j<length xs. j \<noteq> k \<longrightarrow> xs ! j < xs ! k"
  shows "idxmax xs = Inr k"
proof (rule idxmax_first_max [OF assms(1)])
  show "\<forall>j<length xs. xs ! j \<le> xs ! k"
  proof (intro allI impI)
    fix j assume "j < length xs"
    with assms(2) show "xs ! j \<le> xs ! k" by (cases "j = k") auto
  qed
  show "\<forall>j<k. xs ! j < xs ! k" using assms by auto
qed

subsection \<open>Unpacking the chained generator\<close>

lemma features_of_shape:
  "features_of E n offs pad sr sz pr = Inr t \<Longrightarrow>
     \<exists>fid aff diff samples.
       get_fid E (snd pr) (n - 1) = Inr fid
     \<and> gen_features E (fst pr) fid offs pad sr sz True = Inr (aff, diff, samples)
     \<and> t = [Aff aff, Diff diff, Samples samples]"
  by (auto simp: features_of_def split: sum.splits)

lemma features_of_ok:
  "get_fid E fp (n - 1) = Inr fid \<Longrightarrow>
   gen_features E sp fid offs pad sr sz True = Inr (aff, diff, samples) \<Longrightarrow>
   features_of E n offs pad sr sz (sp, fp) = Inr [Aff aff, Diff diff, Samples samples]"
  by (simp add: features_of_def)

lemma unpack3_nil: "unpack3 g ([], []) = Inl ValueError"
  by (simp add: unpack3_def)

lemma unpack3_fail_first: "g p = Inl e \<Longrightarrow> unpack3 g ([], p # ps) = Inl e"
  by (simp add: unpack3_def)

lemma unpack3_one: "g p = Inr [x, y, z] \<Longrightarrow> unpack3 g ([], [p]) = Inr (x, y, z)"
  by (simp add: unpack3_def)

lemma unpack3_fail_second:
  "g p = Inr [x, y, z] \<Longrightarrow> g q = Inl e \<Longrightarrow> unpack3 g ([], p # q # ps) = Inl e"
  by (simp add: unpack3_def)

lemma unpack3_many:
  "g p = Inr [x, y, z] \<Longrightarrow> g q = Inr (x' # t) \<Longrightarrow> unpack3 g ([], p # q # ps) = Inl ValueError"
  by (simp add: unpack3_def)

lemma unpack3_features_Inr:
  assumes "unpack3 (features_of E n offs pad sr sz) ([], ps) = Inr names"
  shows "\<exists>p aff diff samples. ps = [p]
       \<and> features_of E n offs pad sr sz p = Inr [Aff aff, Diff diff, Samples samples]
       \<and> names = (Aff aff, Diff diff, Samples samples)"
proof (cases ps)
  case Nil
  with assms show ?thesis by (simp add: unpack3_nil)
next
  case (Cons p rest)
  show ?thesis
  proof (cases "features_of E n offs pad sr sz p")
    case (Inl e)
    with assms Cons show ?thesis by (simp add: unpack3_fail_first)
  next
    case (Inr t)
    from features_of_shape [OF Inr] obtain aff diff samples
      where t: "features_of E n offs pad sr sz p = Inr [Aff aff, Diff diff, Samples samples]"
      using Inr by auto
    show ?thesis
    proof (cases rest)
      case Nil
      with assms \<open>ps = p # rest\<close> t
      have "names = (Aff aff, Diff diff, Samples samples)" by (simp add: unpack3_one)
      with Nil \<open>ps = p # rest\<close> t show ?thesis by blast
    next
      case (Cons q rest')
      show ?thesis
      proof (cases "features_of E n offs pad sr sz q")
        case (Inl e)
        with assms \<open>ps = p # rest\<close> Cons t show ?thesis by (simp add: unpack3_fail_second)
      next
        case (Inr t')
        from features_of_shape [OF Inr] obtain x' u where "t' = x' # u" by auto
        with Inr assms \<open>ps = p # rest\<close> Cons t show ?thesis by (simp add: unpack3_many)
      qed
    qed
  qed
qed

lemma unpack3_features_two:
  assumes "features_of E n offs pad sr sz p = Inr t" "features_of E n offs pad sr sz q = Inr t'"
  shows "unpack3 (features_of E n offs pad sr sz) ([], p # q # ps) = Inl ValueError"
proof -
  from features_of_shape [OF assms(1)] obtain x y z where "t = [x, y, z]" by auto
  moreover from features_of_shape [OF assms(2)] obtain x' u where "t' = x' # u" by auto
  ultimately show ?thesis using assms by (simp add: unpack3_many)
qed

lemma unpack3_features_ge2:
  "\<exists>e. unpack3 (features_of E n offs pad sr sz) ([], p # q # ps) = Inl e"
proof (cases "features_of E n offs pad sr sz p")
  case (Inl e)
  then show ?thesis by (simp add: unpack3_fail_first)
next
  case (Inr t)
  from features_of_shape [OF Inr] obtain x y z where t: "t = [x, y, z]" by auto
  show ?thesis
  proof (cases "features_of E n offs pad sr sz q")
    case (Inl e)
    with Inr t show ?thesis by (simp add: unpack3_fail_second)
  next
    case (Inr t')
    with \<open>features_of E n offs pad sr sz p = Inr t\<close> show ?thesis
      by (simp add: unpack3_features_two)
  qed
qed

subsection \<open>One run of \<open>apply_afid_model\<close>\<close>

lemma apply_afid_model_single:
  assumes "zip subs fcsvs = [(sp, fp)]"
    and "get_fid E fp (n - 1) = Inr fid"
    and "gen_features E sp fid offs pad sr sz True = Inr (aff, diff, samples)"
  shows "apply_afid_model E n subs fcsvs dir offs pad sr sz w =
     (let w' = w\<lparr>opened := opened w @ [(dir, model_fname n sr)]\<rparr>
      in case model_files E dir (model_fname n sr) of
        None \<Rightarrow> (Inl FileNotFoundError, w')
      | Some regr_rf \<Rightarrow>
     (case regr_rf diff of
        Inl msg \<Rightarrow> (Inl (External msg), w')
      | Inr dist_predict \<Rightarrow>
     (case idxmax dist_predict of
        Inl e \<Rightarrow> (Inl e, w')
      | Inr idx \<Rightarrow>
     (case getitem samples idx of
        Inl e \<Rightarrow> (Inl e, w')
      | Inr voxel \<Rightarrow>
          (Inr (vadd (dot (rotation aff) voxel) (translation aff)), w')))))"
proof -
  have "unpack3 (features_of E n offs pad sr sz) ([], zip subs fcsvs)
          = Inr (Aff aff, Diff diff, Samples samples)"
    using assms by (simp add: unpack3_one features_of_ok)
  then show ?thesis
    by (simp add: apply_afid_model_def Let_def split: option.splits)
qed

lemma apply_afid_model_unpack_fails:
  assumes "unpack3 (features_of E n offs pad sr sz) ([], zip subs fcsvs) = Inl e"
  shows "apply_afid_model E n subs fcsvs dir offs pad sr sz w = (Inl e, w)"
  using assms by (simp add: apply_afid_model_def)

lemma apply_afid_model_Inr:
  assumes "fst (apply_afid_model E n subs fcsvs dir offs pad sr sz w) = Inr c"
  shows "\<exists>sp fp fid aff diff samples regr_rf dist_predict idx.
        zip subs fcsvs = [(sp, fp)]
      \<and> get_fid E fp (n - 1) = Inr fid
      \<and> gen_features E sp fid offs pad sr sz True = Inr (aff, diff, samples)
      \<and> model_files E dir (model_fname n sr) = Some regr_rf
      \<and> regr_rf diff = Inr dist_predict
      \<and> idxmax dist_predict = Inr idx
      \<and> idx < length samples
      \<and> c = vadd (dot (rotation aff) (samples ! idx)) (translation aff)"
proof (cases "unpack3 (features_of E n offs pad sr sz) ([], zip subs fcsvs)")
  case (Inl e)
  with assms show ?thesis by (simp add: apply_afid_model_unpack_fails)
next
  case (Inr names)
  from unpack3_features_Inr [OF Inr] obtain p aff diff samples where
    p: "zip subs fcsvs = [p]"
    "features_of E n offs pad sr sz p = Inr [Aff aff, Diff diff, Samples samples]"
    by blast
  from features_of_shape [OF p(2)] obtain fid where
    f: "get_fid E (snd p) (n - 1) = Inr fid"
       "gen_features E (fst p) fid offs pad sr sz True = Inr (aff, diff, samples)"
    by auto
  have z: "zip subs fcsvs = [(fst p, snd p)]" using p(1) by simp
  note eq = apply_afid_model_single [OF z f, of dir w]
  from assms eq obtain regr_rf where
    m: "model_files E dir (model_fname n sr) = Some regr_rf"
    by (cases "model_files E dir (model_fname n sr)") (simp_all add: Let_def)
  from assms eq m obtain dist_predict where
    d: "regr_rf diff = Inr dist_predict"
    by (cases "regr_rf diff") (simp_all add: Let_def)
  from assms eq m d obtain idx where
    i: "idxmax dist_predict = Inr idx"
    by (cases "idxmax dist_predict") (simp_all add: Let_def)
  from assms eq m d i have
    g: "idx < length samples"
       "c = vadd (dot (rotation aff) (samples ! idx)) (translation aff)"
    by (simp_all add: Let_def getitem_def split: if_splits)
  from z f m d i g show ?thesis by blast
qed

lemma apply_afid_model_world:
  "fst (apply_afid_model E n subs fcsvs dir offs pad sr sz w)
     = fst (apply_afid_model E n subs fcsvs dir offs pad sr sz w0)"
  by (simp add: apply_afid_model_def Let_def split: sum.splits option.splits prod.splits)

lemma apply_afid_model_snd:
  "snd (apply_afid_model E n subs fcsvs dir offs pad sr sz w) = w \<or>
   snd (apply_afid_model E n subs fcsvs dir offs pad sr sz w)
     = w\<lparr>opened := opened w @ [(dir, model_fname n sr)]\<rparr>"
  by (simp add: apply_afid_model_def Let_def split: sum.splits option.splits prod.splits)

lemma apply_afid_model_snd_Inr:
  "fst (apply_afid_model E n subs fcsvs dir offs pad sr sz w) = Inr c \<Longrightarrow>
   snd (apply_afid_model E n subs fcsvs dir offs pad sr sz w)
     = w\<lparr>opened := opened w @ [(dir, model_fname n sr)]\<rparr>"
  by (simp add: apply_afid_model_def Let_def split: sum.splits option.splits prod.splits)

subsection \<open>The loop over the fiducials\<close>

lemma apply_afid_model_fcsv_out:
  "fcsv_out (snd (apply_afid_model E n subs fcsvs dir offs pad sr sz w)) = fcsv_out w"
  using apply_afid_model_snd [of E n subs fcsvs dir offs pad sr sz w] by auto

lemma apply_afid_model_Inr_eq:
  assumes "fst (apply_afid_model E n subs fcsvs dir offs pad sr sz w0) = Inr c"
  shows "apply_afid_model E n subs fcsvs dir offs pad sr sz w
           = (Inr c, w\<lparr>opened := opened w @ [(dir, model_fname n sr)]\<rparr>)"
proof -
  have "fst (apply_afid_model E n subs fcsvs dir offs pad sr sz w) = Inr c"
    using assms apply_afid_model_world [of E n subs fcsvs dir offs pad sr sz w w0] by simp
  then show ?thesis
    using apply_afid_model_snd_Inr [of E n subs fcsvs dir offs pad sr sz w c]
    by (simp add: prod_eq_iff)
qed

lemma afid_loop_success:
  assumes "fo ''arr_0'' = Some a0" "fo ''arr_1'' = Some a1"
    and "\<forall>n\<in>set todo.
           fst (apply_afid_model E n subs fcsvs dir (a0, a1) pad sz sr w0) = Inr (coords n)"
  shows "afid_loop E subs fcsvs dir fo pad sz sr todo acc w
           = (Inr (acc @ map coords todo),
              w\<lparr>opened := opened w @ map (\<lambda>n. (dir, model_fname n sz)) todo\<rparr>)"
  using assms(3)
proof (induction todo arbitrary: acc w)
  case Nil
  show ?case by simp
next
  case (Cons n todo)
  from Cons.prems have
    "fst (apply_afid_model E n subs fcsvs dir (a0, a1) pad sz sr w0) = Inr (coords n)" by simp
  then have step: "apply_afid_model E n subs fcsvs dir (a0, a1) pad sz sr w
           = (Inr (coords n), w\<lparr>opened := opened w @ [(dir, model_fname n sz)]\<rparr>)"
    by (rule apply_afid_model_Inr_eq)
  from Cons.prems have rest: "\<forall>n\<in>set todo.
           fst (apply_afid_model E n subs fcsvs dir (a0, a1) pad sz sr w0) = Inr (coords n)"
    by simp
  show ?case
    by (simp add: npz_get_def assms(1,2) step Cons.IH [OF rest])
qed

lemma afid_loop_keys:
  assumes "afid_loop E subs fcsvs dir fo pad sz sr (n # todo) acc w = (Inr all, w')"
  shows "\<exists>a0 a1. fo ''arr_0'' = Some a0 \<and> fo ''arr_1'' = Some a1"
  using assms by (auto simp: npz_get_def split: option.splits)

lemma afid_loop_Inr:
  assumes "fo ''arr_0'' = Some a0" "fo ''arr_1'' = Some a1"
    and "afid_loop E subs fcsvs dir fo pad sz sr todo acc w = (Inr all, w')"
  shows "(\<forall>n\<in>set todo. \<exists>c.
            fst (apply_afid_model E n subs fcsvs dir (a0, a1) pad sz sr w0) = Inr c)
       \<and> all = acc @ map (\<lambda>n. projr (fst
                  (apply_afid_model E n subs fcsvs dir (a0, a1) pad sz sr w0))) todo
       \<and> w' = w\<lparr>opened := opened w @ map (\<lambda>n. (dir, model_fname n sz)) todo\<rparr>"
  using assms(3)
proof (induction todo arbitrary: acc w)
  case Nil
  then show ?case by simp
next
  case (Cons n todo)
  obtain r w1 where r: "apply_afid_model E n subs fcsvs dir (a0, a1) pad sz sr w = (r, w1)"
    by (cases "apply_afid_model E n subs fcsvs dir (a0, a1) pad sz sr w") 
  from Cons.prems r obtain c where c: "r = Inr c"
    by (cases r) (simp_all add: npz_get_def assms(1,2))
  from r c have f0: "fst (apply_afid_model E n subs fcsvs dir (a0, a1) pad sz sr w0) = Inr c"
    using apply_afid_model_world [of E n subs fcsvs dir "(a0, a1)" pad sz sr w0 w] by simp
  then have step: "apply_afid_model E n subs fcsvs dir (a0, a1) pad sz sr w
           = (Inr c, w\<lparr>opened := opened w @ [(dir, model_fname n sz)]\<rparr>)"
    by (rule apply_afid_model_Inr_eq)
  from Cons.prems have
    "afid_loop E subs fcsvs dir fo pad sz sr todo (acc @ [c])
       (w\<lparr>opened := opened w @ [(dir, model_fname n sz)]\<rparr>) = (Inr all, w')"
    by (simp add: npz_get_def assms(1,2) step)
  from Cons.IH [OF this] f0 show ?case by (cases c) auto
qed

lemma afid_loop_fcsv_out:
  "fcsv_out (snd (afid_loop E subs fcsvs dir fo pad sz sr todo acc w)) = fcsv_out w"
proof (induction todo arbitrary: acc w)
  case Nil
  show ?case by simp
next
  case (Cons n todo)
  show ?case
  proof (cases "fo ''arr_0''")
    case None
    then show ?thesis by (simp add: npz_get_def)
  next
    case a0: (Some a0)
    show ?thesis
    proof (cases "fo ''arr_1''")
      case None
      with a0 show ?thesis by (simp add: npz_get_def)
    next
      case a1: (Some a1)
      obtain r w1 where r: "apply_afid_model E n subs fcsvs dir (a0, a1) pad sz sr w = (r, w1)"
        by (cases "apply_afid_model E n subs fcsvs dir (a0, a1) pad sz sr w")
      then have w1: "fcsv_out w1 = fcsv_out w"
        using apply_afid_model_fcsv_out [of E n subs fcsvs dir "(a0, a1)" pad sz sr w] by simp
      show ?thesis
        by (cases r) (simp_all add: npz_get_def a0 a1 r w1 Cons.IH)
    qed
  qed
qed

lemma afid_loop_fails:
  assumes "fo ''arr_0'' = Some a0" "fo ''arr_1'' = Some a1"
    and "n \<in> set todo"
    and "fst (apply_afid_model E n subs fcsvs dir (a0, a1) pad sz sr w0) = Inl e"
  shows "\<exists>e'. fst (afid_loop E subs fcsvs dir fo pad sz sr todo acc w) = Inl e'"
  using assms(3)
proof (induction todo arbitrary: acc w)
  case Nil
  then show ?case by simp
next
  case (Cons m todo)
  obtain r w1 where r: "apply_afid_model E m subs fcsvs dir (a0, a1) pad sz sr w = (r, w1)"
    by (cases "apply_afid_model E m subs fcsvs dir (a0, a1) pad sz sr w")
  show ?case
  proof (cases r)
    case (Inl e1)
    with r show ?thesis by (simp add: npz_get_def assms(1,2))
  next
    case (Inr c)
    have "m \<noteq> n"
    proof
      assume "m = n"
      with r Inr have "fst (apply_afid_model E n subs fcsvs dir (a0, a1) pad sz sr w) = Inr c"
        by simp
      with assms(4) show False
        using apply_afid_model_world [of E n subs fcsvs dir "(a0, a1)" pad sz sr w w0] by simp
    qed
    with Cons.prems have "n \<in> set todo" by simp
    from Cons.IH [OF this] r Inr show ?thesis by (simp add: npz_get_def assms(1,2))
  qed
qed

lemma afid_loop_opened:
  "\<exists>k\<le>length todo.
      opened (snd (afid_loop E subs fcsvs dir fo pad sz sr todo acc w))
        = opened w @ map (\<lambda>n. (dir, model_fname n sz)) (take k todo)"
proof (induction todo arbitrary: acc w)
  case Nil
  show ?case by simp
next
  case (Cons n todo)
  let ?f = "\<lambda>n. (dir, model_fname n sz)"
  show ?case
  proof (cases "fo ''arr_0''")
    case None
    then have "opened (snd (afid_loop E subs fcsvs dir fo pad sz sr (n # todo) acc w))
        = opened w @ map ?f (take 0 (n # todo))" by (simp add: npz_get_def)
    then show ?thesis by blast
  next
    case a0: (Some a0)
    show ?thesis
    proof (cases "fo ''arr_1''")
      case None
      with a0 have "opened (snd (afid_loop E subs fcsvs dir fo pad sz sr (n # todo) acc w))
        = opened w @ map ?f (take 0 (n # todo))" by (simp add: npz_get_def)
      then show ?thesis by blast
    next
      case a1: (Some a1)
      obtain r w1 where r: "apply_afid_model E n subs fcsvs dir (a0, a1) pad sz sr w = (r, w1)"
        by (cases "apply_afid_model E n subs fcsvs dir (a0, a1) pad sz sr w")
      show ?thesis
      proof (cases r)
        case (Inl e)
        from apply_afid_model_snd [of E n subs fcsvs dir "(a0, a1)" pad sz sr w] r
        consider "w1 = w" | "w1 = w\<lparr>opened := opened w @ [?f n]\<rparr>" by auto
        then show ?thesis
        proof cases
          case 1
          with r Inl a0 a1
          have "opened (snd (afid_loop E subs fcsvs dir fo pad sz sr (n # todo) acc w))
            = opened w @ map ?f (take 0 (n # todo))" by (simp add: npz_get_def)
          then show ?thesis by blast
        next
          case 2
          with r Inl a0 a1
          have "opened (snd (afid_loop E subs fcsvs dir fo pad sz sr (n # todo) acc w))
            = opened w @ map ?f (take 1 (n # todo))" by (simp add: npz_get_def)
          moreover have "1 \<le> length (n # todo)" by simp
          ultimately show ?thesis by blast
        qed
      next
        case (Inr c)
        with r have "fst (apply_afid_model E n subs fcsvs dir (a0, a1) pad sz sr w) = Inr c"
          by simp
        from apply_afid_model_Inr_eq [OF this, of w] r
        have w1: "w1 = w\<lparr>opened := opened w @ [?f n]\<rparr>" by simp
        from Cons.IH [of "acc @ [c]" w1] obtain k where k: "k \<le> length todo"
          "opened (snd (afid_loop E subs fcsvs dir fo pad sz sr todo (acc @ [c]) w1))
             = opened w1 @ map ?f (take k todo)" by blast
        have "opened (snd (afid_loop E subs fcsvs dir fo pad sz sr (n # todo) acc w))
            = opened w @ map ?f (take (Suc k) (n # todo))"
          using k(2) r Inr a0 a1 w1 by (simp add: npz_get_def)
        moreover have "Suc k \<le> length (n # todo)" using k(1) by simp
        ultimately show ?thesis by blast
      qed
    qed
  qed
qed

subsection \<open>Which exceptions can come out\<close>

lemma features_of_Inl: "features_of E n offs pad sr sz pr = Inl e \<Longrightarrow> \<exists>msg. e = External msg"
  by (auto simp: features_of_def split: sum.splits)

lemma chain_next_Inl:
  "chain_next g it = Inl e \<Longrightarrow> \<exists>p\<in>set (snd it). g p = Inl e"
proof (induction g it rule: chain_next.induct)
  case (1 g x buf ps)
  then show ?case by simp
next
  case (2 g)
  then show ?case by simp
next
  case (3 g p ps)
  show ?case
  proof (cases "g p")
    case (Inl e')
    with "3.prems" show ?thesis by simp
  next
    case (Inr t)
    with "3.prems" have "chain_next g (t, ps) = Inl e" by simp
    from "3.IH" [OF Inr this] show ?thesis by simp
  qed
qed

lemma chain_next_Some:
  "chain_next g it = Inr (Some (x, it')) \<Longrightarrow> set (snd it') \<subseteq> set (snd it)"
proof (induction g it rule: chain_next.induct)
  case (1 g x buf ps)
  then show ?case by auto
next
  case (2 g)
  then show ?case by simp
next
  case (3 g p ps)
  show ?case
  proof (cases "g p")
    case (Inl e')
    with "3.prems" show ?thesis by simp
  next
    case (Inr t)
    with "3.prems" have "chain_next g (t, ps) = Inr (Some (x, it'))" by simp
    from "3.IH" [OF Inr this] show ?thesis by auto
  qed
qed

lemma unpack3_Inl:
  assumes "unpack3 g it0 = Inl e"
  shows "e = ValueError \<or> (\<exists>p\<in>set (snd it0). g p = Inl e)"
proof (cases "chain_next g it0")
  case (Inl e1)
  with assms have "e1 = e" by (simp add: unpack3_def)
  with Inl chain_next_Inl show ?thesis by blast
next
  case (Inr r1)
  show ?thesis
  proof (cases r1)
    case None
    with Inr assms show ?thesis by (simp add: unpack3_def)
  next
    case (Some s1)
    obtain x it1 where s1: "s1 = (x, it1)" by (cases s1)
    from Inr Some s1 have "chain_next g it0 = Inr (Some (x, it1))" by simp
    then have sub1: "set (snd it1) \<subseteq> set (snd it0)" by (rule chain_next_Some)
    show ?thesis
    proof (cases "chain_next g it1")
      case (Inl e2)
      with assms Inr Some s1 have "e2 = e" by (simp add: unpack3_def)
      with Inl chain_next_Inl [of g it1 e] sub1 show ?thesis by blast
    next
      case r2: (Inr r2)
      show ?thesis
      proof (cases r2)
        case None
        with r2 Inr Some s1 assms show ?thesis by (simp add: unpack3_def)
      next
        case s2: (Some s2)
        obtain y it2 where s2': "s2 = (y, it2)" by (cases s2)
        from r2 s2 s2' have "chain_next g it1 = Inr (Some (y, it2))" by simp
        then have sub2: "set (snd it2) \<subseteq> set (snd it1)" by (rule chain_next_Some)
        show ?thesis
        proof (cases "chain_next g it2")
          case (Inl e3)
          with assms Inr Some s1 r2 s2 s2' have "e3 = e" by (simp add: unpack3_def)
          with Inl chain_next_Inl [of g it2 e] sub1 sub2 show ?thesis by blast
        next
          case r3: (Inr r3)
          show ?thesis
          proof (cases r3)
            case None
            with r3 r2 s2 s2' Inr Some s1 assms show ?thesis by (simp add: unpack3_def)
          next
            case s3: (Some s3)
            obtain z it3 where s3': "s3 = (z, it3)" by (cases s3)
            from r3 s3 s3' have "chain_next g it2 = Inr (Some (z, it3))" by simp
            then have sub3: "set (snd it3) \<subseteq> set (snd it2)" by (rule chain_next_Some)
            show ?thesis
            proof (cases "chain_next g it3")
              case (Inl e4)
              with assms Inr Some s1 r2 s2 s2' r3 s3 s3' have "e4 = e"
                by (simp add: unpack3_def)
              with Inl chain_next_Inl [of g it3 e] sub1 sub2 sub3 show ?thesis by blast
            next
              case r4: (Inr r4)
              with assms Inr Some s1 r2 s2 s2' r3 s3 s3' show ?thesis
                by (cases r4) (simp_all add: unpack3_def)
            qed
          qed
        qed
      qed
    qed
  qed
qed

lemma idxmax_Inl: "idxmax xs = Inl e \<Longrightarrow> e = ValueError \<and> xs = []"
  by (cases xs) (simp_all add: idxmax_def)

lemma getitem_Inl: "getitem xs i = Inl e \<Longrightarrow> e = IndexError"
  by (simp add: getitem_def split: if_splits)

lemma apply_afid_model_errors:
  assumes "fst (apply_afid_model E n subs fcsvs dir offs pad sr sz w) = Inl e"
  shows "e = ValueError \<or> e = IndexError \<or> e = FileNotFoundError \<or> (\<exists>msg. e = External msg)"
proof (cases "unpack3 (features_of E n offs pad sr sz) ([], zip subs fcsvs)")
  case (Inl e')
  with assms have "e' = e" by (simp add: apply_afid_model_unpack_fails)
  with Inl unpack3_Inl [of "features_of E n offs pad sr sz" "([], zip subs fcsvs)" e]
    features_of_Inl [of E n offs pad sr sz _ e]
  show ?thesis by blast
next
  case (Inr names)
  from unpack3_features_Inr [OF Inr] obtain p aff diff samples where
    p: "zip subs fcsvs = [p]"
    "features_of E n offs pad sr sz p = Inr [Aff aff, Diff diff, Samples samples]"
    by blast
  from features_of_shape [OF p(2)] obtain fid where
    f: "get_fid E (snd p) (n - 1) = Inr fid"
       "gen_features E (fst p) fid offs pad sr sz True = Inr (aff, diff, samples)"
    by auto
  have z: "zip subs fcsvs = [(fst p, snd p)]" using p(1) by simp
  note eq = apply_afid_model_single [OF z f, of dir w]
  show ?thesis
  proof (cases "model_files E dir (model_fname n sr)")
    case None
    with assms eq show ?thesis by (simp add: Let_def)
  next
    case (Some regr_rf)
    show ?thesis
    proof (cases "regr_rf diff")
      case (Inl msg)
      with assms eq Some show ?thesis by (auto simp: Let_def)
    next
      case d: (Inr dist_predict)
      show ?thesis
      proof (cases "idxmax dist_predict")
        case (Inl e1)
        with assms eq Some d idxmax_Inl [of dist_predict e1] show ?thesis
          by (auto simp: Let_def)
      next
        case i: (Inr idx)
        show ?thesis
        proof (cases "getitem samples idx")
          case (Inl e2)
          with assms eq Some d i getitem_Inl [of samples idx e2] show ?thesis
            by (auto simp: Let_def)
        next
          case (Inr voxel)
          with assms eq Some d i show ?thesis by (simp add: Let_def)
        qed
      qed
    qed
  qed
qed

lemma apply_afid_model_empty:
  "subs = [] \<or> fcsvs = [] \<Longrightarrow>
     apply_afid_model E n subs fcsvs dir offs pad sr sz w = (Inl ValueError, w)"
  by (auto simp: apply_afid_model_def unpack3_def)

lemma zip_ge2:
  assumes "2 \<le> length subs" "2 \<le> length fcsvs"
  shows "zip subs fcsvs = (subs ! 0, fcsvs ! 0) # (subs ! 1, fcsvs ! 1) # zip (drop 2 subs) (drop 2 fcsvs)"
proof -
  from assms(1) obtain s0 s1 srest where s: "subs = s0 # s1 # srest"
    by (cases subs; cases "tl subs") auto
  from assms(2) obtain f0 f1 frest where f: "fcsvs = f0 # f1 # frest"
    by (cases fcsvs; cases "tl fcsvs") auto
  show ?thesis by (simp add: s f)
qed

subsection \<open>Back-projection and the stub\<close>

lemma back_projection_entries:
  "vadd (dot (rotation ((a11, a12, a13, a14), (a21, a22, a23, a24), (a31, a32, a33, a34), r4))
             (x, y, z))
        (translation ((a11, a12, a13, a14), (a21, a22, a23, a24), (a31, a32, a33, a34), r4))
     = (a11 * x + a12 * y + a13 * z + a14,
        a21 * x + a22 * y + a23 * z + a24,
        a31 * x + a32 * y + a33 * z + a34)"
  by simp

lemma stub_locator:
  "apply_afid_model stub_env n [sp] [fp] dir offs pad sr sz w
     = (Inr (2, 2, 2), w\<lparr>opened := opened w @ [(dir, model_fname n sr)]\<rparr>)"
  by (simp add: apply_afid_model_def unpack3_def features_of_def stub_env_def stub_model_def
        identity_affine_def idxmax_def getitem_def Let_def)


section \<open>The claims\<close>

text \<open>
  C1. The claim: for every non-empty list of subjects, of any length, \<open>apply_afid_model\<close>
  pools the transforms, feature differences and candidate voxels of all subjects into
  three aligned sequences and returns one coordinate, chosen by one argmax over the pool.

  The code does not get that far with two or more subjects. The chain yields the three
  members of the first tuple and then, asked for a fourth item, the first member of the
  second tuple, so the unpacking into three names raises. With at least two subject
  paths and two fcsv paths the call never returns a coordinate and opens no model file;
  when the feature generation of the first two pairs succeeds, the exception is
  \<open>ValueError\<close> (too many values to unpack).
\<close>

theorem apply_afid_model_two_subjects_ValueError:
  assumes "2 \<le> length subject_paths" and "2 \<le> length fcsv_paths"
  shows "(\<exists>e. apply_afid_model E afid_num subject_paths fcsv_paths model_dir_path
                 feature_offsets padding sampling_rate size' w = (Inl e, w))
       \<and> (\<forall>t0 t1.
             features_of E afid_num feature_offsets padding sampling_rate size'
               (subject_paths ! 0, fcsv_paths ! 0) = Inr t0
           \<and> features_of E afid_num feature_offsets padding sampling_rate size'
               (subject_paths ! 1, fcsv_paths ! 1) = Inr t1
           \<longrightarrow> apply_afid_model E afid_num subject_paths fcsv_paths model_dir_path
                 feature_offsets padding sampling_rate size' w = (Inl ValueError, w))"
proof -
  let ?g = "features_of E afid_num feature_offsets padding sampling_rate size'"
  from zip_ge2 [OF assms] obtain rest where
    z: "zip subject_paths fcsv_paths
          = (subject_paths ! 0, fcsv_paths ! 0) # (subject_paths ! 1, fcsv_paths ! 1) # rest"
    by blast
  from unpack3_features_ge2 [of E afid_num feature_offsets padding sampling_rate size']
  obtain e where "unpack3 ?g ([], zip subject_paths fcsv_paths) = Inl e"
    unfolding z by blast
  then have first: "\<exists>e. apply_afid_model E afid_num subject_paths fcsv_paths model_dir_path
                 feature_offsets padding sampling_rate size' w = (Inl e, w)"
    using apply_afid_model_unpack_fails by blast
  have second: "apply_afid_model E afid_num subject_paths fcsv_paths model_dir_path
                 feature_offsets padding sampling_rate size' w = (Inl ValueError, w)"
    if "?g (subject_paths ! 0, fcsv_paths ! 0) = Inr t0"
      and "?g (subject_paths ! 1, fcsv_paths ! 1) = Inr t1" for t0 t1
  proof -
    from unpack3_features_two [OF that]
    have "unpack3 ?g ([], zip subject_paths fcsv_paths) = Inl ValueError"
      unfolding z .
    then show ?thesis by (rule apply_afid_model_unpack_fails)
  qed
  from first second show ?thesis by blast
qed

theorem apply_afid_model_two_subjects_witness:
  "apply_afid_model stub_env 1 [''sub-01.nii'', ''sub-02.nii''] [''sub-01.fcsv'', ''sub-02.fcsv'']
     ''models'' ((), ()) 0 5 1 fresh_world = (Inl ValueError, fresh_world)
   \<and> apply_afid_model stub_env 1 [''sub-01.nii''] [''sub-01.fcsv'']
     ''models'' ((), ()) 0 5 1 fresh_world
       = (Inr (2, 2, 2),
          \<lparr>opened = [(''models'', ''afid-01_desc-rf_sampleRate-iso5vox_model.joblib'')],
           fcsv_out = []\<rparr>)"
proof -
  have l: "2 \<le> length [''sub-01.nii'', ''sub-02.nii'']"
          "2 \<le> length [''sub-01.fcsv'', ''sub-02.fcsv'']" by simp_all
  have f0: "features_of stub_env 1 ((), ()) 0 5 1
              ([''sub-01.nii'', ''sub-02.nii''] ! 0, [''sub-01.fcsv'', ''sub-02.fcsv''] ! 0)
            = Inr [Aff identity_affine, Diff [(), (), ()],
                   Samples [(1, 1, 1), (2, 2, 2), (3, 3, 3)]]"
    by (simp add: features_of_def stub_env_def)
  have f1: "features_of stub_env 1 ((), ()) 0 5 1
              ([''sub-01.nii'', ''sub-02.nii''] ! 1, [''sub-01.fcsv'', ''sub-02.fcsv''] ! 1)
            = Inr [Aff identity_affine, Diff [(), (), ()],
                   Samples [(1, 1, 1), (2, 2, 2), (3, 3, 3)]]"
    by (simp add: features_of_def stub_env_def)
  from apply_afid_model_two_subjects_ValueError [OF l, where E = stub_env and afid_num = 1
      and feature_offsets = "((), ())" and padding = 0 and sampling_rate = 5 and size' = 1
      and model_dir_path = "''models''" and w = fresh_world] f0 f1
  have "apply_afid_model stub_env 1 [''sub-01.nii'', ''sub-02.nii'']
     [''sub-01.fcsv'', ''sub-02.fcsv''] ''models'' ((), ()) 0 5 1 fresh_world
       = (Inl ValueError, fresh_world)" by blast
  moreover have "apply_afid_model stub_env 1 [''sub-01.nii''] [''sub-01.fcsv'']
     ''models'' ((), ()) 0 5 1 fresh_world
       = (Inr (2, 2, 2),
          \<lparr>opened = [(''models'', ''afid-01_desc-rf_sampleRate-iso5vox_model.joblib'')],
           fcsv_out = []\<rparr>)"
    by (simp add: stub_locator fresh_world_def model_fname_def zfill_def str_int_def
          str_nat.simps digit_char_def)
  ultimately show ?thesis by simp
qed

text \<open>
  C2. The index selected is that of the greatest predicted score, the first one when the
  greatest score occurs more than once, and the coordinate returned is computed from
  the candidate voxel at that index. For the one subject whose features the generator
  returned and the scores the model predicted: the call returns \<open>c\<close> exactly when there
  is an index \<open>k\<close> of the scores that holds a maximum, with every earlier score strictly
  smaller, that is also an index of \<open>samples\<close>, and \<open>c\<close> is the back-projection of
  \<open>samples[k]\<close>. In particular, when the maximum is unique and at \<open>k\<close>, the result is
  computed from \<open>samples[k]\<close>.
\<close>

theorem apply_afid_model_selects_first_maximum:
  assumes "zip subject_paths fcsv_paths = [(sp, fp)]"
    and "get_fid E fp (afid_num - 1) = Inr fid"
    and "gen_features E sp fid feature_offsets padding sampling_rate size' True
           = Inr (aff, diff, samples)"
    and "model_files E model_dir_path (model_fname afid_num sampling_rate) = Some regr_rf"
    and "regr_rf diff = Inr scores"
  shows "(fst (apply_afid_model E afid_num subject_paths fcsv_paths model_dir_path
                 feature_offsets padding sampling_rate size' w) = Inr c
          \<longleftrightarrow> (\<exists>k<length scores.
                 (\<forall>j<length scores. scores ! j \<le> scores ! k)
               \<and> (\<forall>j<k. scores ! j < scores ! k)
               \<and> k < length samples
               \<and> c = vadd (dot (rotation aff) (samples ! k)) (translation aff)))
       \<and> (\<forall>k<length scores.
             (\<forall>j<length scores. j \<noteq> k \<longrightarrow> scores ! j < scores ! k) \<and> k < length samples
             \<longrightarrow> fst (apply_afid_model E afid_num subject_paths fcsv_paths model_dir_path
                       feature_offsets padding sampling_rate size' w)
                   = Inr (vadd (dot (rotation aff) (samples ! k)) (translation aff)))"
proof -
  let ?r = "fst (apply_afid_model E afid_num subject_paths fcsv_paths model_dir_path
                 feature_offsets padding sampling_rate size' w)"
  have eq: "?r = (case idxmax scores of
                    Inl e \<Rightarrow> Inl e
                  | Inr idx \<Rightarrow>
                      (case getitem samples idx of
                         Inl e \<Rightarrow> Inl e
                       | Inr voxel \<Rightarrow> Inr (vadd (dot (rotation aff) voxel) (translation aff))))"
    unfolding apply_afid_model_single [OF assms(1,2,3)]
    by (simp add: Let_def assms(4,5) split: sum.splits)
  have from_first: "?r = Inr (vadd (dot (rotation aff) (samples ! k)) (translation aff))"
    if "k < length scores" "\<forall>j<length scores. scores ! j \<le> scores ! k"
       "\<forall>j<k. scores ! j < scores ! k" "k < length samples" for k
  proof -
    from that(1,2,3) have "idxmax scores = Inr k" by (rule idxmax_first_max)
    with that(4) show ?thesis by (simp add: eq getitem_def)
  qed
  have to_first: "\<exists>k<length scores.
                 (\<forall>j<length scores. scores ! j \<le> scores ! k)
               \<and> (\<forall>j<k. scores ! j < scores ! k)
               \<and> k < length samples
               \<and> c = vadd (dot (rotation aff) (samples ! k)) (translation aff)"
    if r: "?r = Inr c"
  proof -
    from r eq obtain idx where i: "idxmax scores = Inr idx"
      by (cases "idxmax scores") simp_all
    from r eq i have g: "idx < length samples"
      "c = vadd (dot (rotation aff) (samples ! idx)) (translation aff)"
      by (simp_all add: getitem_def split: if_splits)
    from idxmax_sound [OF i] g show ?thesis by blast
  qed
  have unique: "?r = Inr (vadd (dot (rotation aff) (samples ! k)) (translation aff))"
    if "k < length scores" "\<forall>j<length scores. j \<noteq> k \<longrightarrow> scores ! j < scores ! k"
       "k < length samples" for k
  proof -
    from that(1,2) have "idxmax scores = Inr k" by (rule idxmax_unique_max)
    with that(3) show ?thesis by (simp add: eq getitem_def)
  qed
  from from_first to_first unique show ?thesis by blast
qed

theorem apply_afid_model_selects_first_maximum_witness:
  "fst (apply_afid_model
          (stub_env\<lparr>model_files := (\<lambda>dir name. Some (\<lambda>diff. Inr [0.4, 0.9, 0.9]))\<rparr>)
          7 [''sub-01.nii''] [''sub-01.fcsv''] ''models'' ((), ()) 0 5 1 fresh_world)
     = Inr (2, 2, 2)"
proof -
  let ?E = "stub_env\<lparr>model_files := (\<lambda>dir name. Some (\<lambda>diff. Inr [0.4, 0.9, 0.9]))\<rparr>"
  let ?scores = "[0.4, 0.9, 0.9] :: real list"
  let ?samples = "[(1, 1, 1), (2, 2, 2), (3, 3, 3)] :: vec3 list"
  have z: "zip [''sub-01.nii''] [''sub-01.fcsv''] = [(''sub-01.nii'', ''sub-01.fcsv'')]"
    by simp
  have f: "get_fid ?E ''sub-01.fcsv'' (7 - 1) = Inr ()"
    by (simp add: stub_env_def)
  have g: "gen_features ?E ''sub-01.nii'' () ((), ()) 0 5 1 True
             = Inr (identity_affine, [(), (), ()], ?samples)"
    by (simp add: stub_env_def)
  have m: "model_files ?E ''models'' (model_fname 7 5) = Some (\<lambda>diff. Inr ?scores)"
    by (simp add: stub_env_def)
  have p: "(\<lambda>diff. Inr ?scores) [(), (), ()] = (Inr ?scores :: string + real list)"
    by simp
  have k: "(1::nat) < length ?scores
         \<and> (\<forall>j<length ?scores. ?scores ! j \<le> ?scores ! 1)
         \<and> (\<forall>j<1. ?scores ! j < ?scores ! 1)
         \<and> 1 < length ?samples
         \<and> ((2, 2, 2) :: vec3)
             = vadd (dot (rotation identity_affine) (?samples ! 1)) (translation identity_affine)"
    by (simp add: less_Suc_eq identity_affine_def numeral_3_eq_3 all_conj_distrib)
  from apply_afid_model_selects_first_maximum [OF z f g m p, where c = "(2, 2, 2)"
      and w = fresh_world] k
  show ?thesis by blast
qed

text \<open>
  C3. Whenever \<open>apply_afid_model\<close> returns a coordinate, that coordinate is
  \<open>T[:3,:3] . v + T[:3,3]\<close>, written out entry by entry: \<open>v\<close> is the candidate voxel at
  the index of the greatest score, and \<open>T\<close> is the transform that the feature generator
  returned together with that voxel list, for the same subject.
\<close>

theorem apply_afid_model_back_projection:
  assumes "fst (apply_afid_model E afid_num subject_paths fcsv_paths model_dir_path
                  feature_offsets padding sampling_rate size' w) = Inr c"
  shows "\<exists>sp fp fid diff samples regr_rf scores idx
            a11 a12 a13 a14 a21 a22 a23 a24 a31 a32 a33 a34 r4 x y z.
        zip subject_paths fcsv_paths = [(sp, fp)]
      \<and> get_fid E fp (afid_num - 1) = Inr fid
      \<and> gen_features E sp fid feature_offsets padding sampling_rate size' True
           = Inr (((a11, a12, a13, a14), (a21, a22, a23, a24), (a31, a32, a33, a34), r4),
                  diff, samples)
      \<and> model_files E model_dir_path (model_fname afid_num sampling_rate) = Some regr_rf
      \<and> regr_rf diff = Inr scores
      \<and> idxmax scores = Inr idx
      \<and> idx < length samples
      \<and> samples ! idx = (x, y, z)
      \<and> c = (a11 * x + a12 * y + a13 * z + a14,
              a21 * x + a22 * y + a23 * z + a24,
              a31 * x + a32 * y + a33 * z + a34)"
proof -
  from apply_afid_model_Inr [OF assms] obtain sp fp fid aff diff samples regr_rf scores idx
    where h: "zip subject_paths fcsv_paths = [(sp, fp)]"
      "get_fid E fp (afid_num - 1) = Inr fid"
      "gen_features E sp fid feature_offsets padding sampling_rate size' True
         = Inr (aff, diff, samples)"
      "model_files E model_dir_path (model_fname afid_num sampling_rate) = Some regr_rf"
      "regr_rf diff = Inr scores"
      "idxmax scores = Inr idx"
      "idx < length samples"
      "c = vadd (dot (rotation aff) (samples ! idx)) (translation aff)"
    by blast
  obtain a11 a12 a13 a14 a21 a22 a23 a24 a31 a32 a33 a34 r4 where
    aff: "aff = ((a11, a12, a13, a14), (a21, a22, a23, a24), (a31, a32, a33, a34), r4)"
    by (metis prod_cases4)
  obtain x y z where v: "samples ! idx = (x, y, z)"
    by (metis prod_cases3)
  from h(8) have c: "c = (a11 * x + a12 * y + a13 * z + a14,
              a21 * x + a22 * y + a23 * z + a24,
              a31 * x + a32 * y + a33 * z + a34)"
    by (simp add: aff v)
  from h(1,2) h(3) [unfolded aff] h(4,5,6,7) v c show ?thesis
    by (intro exI conjI) assumption+
qed

theorem apply_afid_model_back_projection_witness:
  "fst (apply_afid_model shifted_env 3 [''sub-01.nii''] [''sub-01.fcsv''] ''models''
          ((), ()) 0 5 1 fresh_world) = Inr (2.9, - 1.7, 2.5)
   \<and> gen_features shifted_env ''sub-01.nii'' () ((), ()) 0 5 1 True
        = Inr (((1, 0, 0, 0.9), (0, 1, 0, - 3.7), (0, 0, 1, 0.5), (0, 0, 0, 1)),
               [(), (), ()], [(1, 1, 1), (2, 2, 2), (3, 3, 3)])"
proof -
  have r: "fst (apply_afid_model shifted_env 3 [''sub-01.nii''] [''sub-01.fcsv''] ''models''
          ((), ()) 0 5 1 fresh_world) = Inr (2.9, - 1.7, 2.5)"
    by (simp add: apply_afid_model_def unpack3_def features_of_def shifted_env_def
          stub_env_def stub_model_def shifted_affine_def idxmax_def getitem_def Let_def)
  have g: "gen_features shifted_env ''sub-01.nii'' () ((), ()) 0 5 1 True
        = Inr (((1, 0, 0, 0.9), (0, 1, 0, - 3.7), (0, 0, 1, 0.5), (0, 0, 0, 1)),
               [(), (), ()], [(1, 1, 1), (2, 2, 2), (3, 3, 3)])"
    by (simp add: shifted_env_def stub_env_def shifted_affine_def)
  from apply_afid_model_back_projection [OF r] g show ?thesis using r by simp
qed

text \<open>
  C6. One subject, one fiducial; the feature generator returns the candidates
  (1,1,1), (2,2,2), (3,3,3) under the identity transform and the model predicts the
  scores 0.1, 0.9, 0.4: \<open>apply_afid_model\<close> returns (2,2,2).
\<close>

theorem end_to_end_scenario:
  assumes "get_fid E fcsv_path (afid_num - 1) = Inr fid"
    and "gen_features E subject_path fid feature_offsets padding sampling_rate size' True
           = Inr (identity_affine, diff, [(1, 1, 1), (2, 2, 2), (3, 3, 3)])"
    and "model_files E model_dir_path (model_fname afid_num sampling_rate) = Some regr_rf"
    and "regr_rf diff = Inr [0.1, 0.9, 0.4]"
  shows "fst (apply_afid_model E afid_num [subject_path] [fcsv_path] model_dir_path
                feature_offsets padding sampling_rate size' w) = Inr (2, 2, 2)"
proof -
  have z: "zip [subject_path] [fcsv_path] = [(subject_path, fcsv_path)]" by simp
  show ?thesis
    unfolding apply_afid_model_single [OF z assms(1,2)]
    by (simp add: Let_def assms(3,4) idxmax_def getitem_def identity_affine_def)
qed

theorem end_to_end_scenario_witness:
  "fst (apply_afid_model stub_env 1 [''sub-01.nii''] [''sub-01.fcsv''] ''models''
          ((), ()) 0 5 1 fresh_world) = Inr (2, 2, 2)"
proof -
  have f: "get_fid stub_env ''sub-01.fcsv'' (1 - 1) = Inr ()"
    by (simp add: stub_env_def)
  have g: "gen_features stub_env ''sub-01.nii'' () ((), ()) 0 5 1 True
             = Inr (identity_affine, [(), (), ()], [(1, 1, 1), (2, 2, 2), (3, 3, 3)])"
    by (simp add: stub_env_def)
  have m: "model_files stub_env ''models'' (model_fname 1 5) = Some stub_model"
    by (simp add: stub_env_def)
  have p: "stub_model [(), (), ()] = Inr [0.1, 0.9, 0.4]"
    by (simp add: stub_model_def)
  from end_to_end_scenario [OF f g m p] show ?thesis .
qed

text \<open>
  No call of \<open>apply_afid_model\<close> fails with one of the three exceptions that only the
  specification names.
\<close>

lemma apply_afid_model_never_spec_error:
  "fst (apply_afid_model E n subs fcsvs dir offs pad sr sz w) \<noteq> Inl ModelNotFoundError
 \<and> fst (apply_afid_model E n subs fcsvs dir offs pad sr sz w) \<noteq> Inl EmptyCandidateSetError
 \<and> fst (apply_afid_model E n subs fcsvs dir offs pad sr sz w) \<noteq> Inl MismatchedInputLengthError"
  using apply_afid_model_errors [of E n subs fcsvs dir offs pad sr sz w] by auto

text \<open>
  C7. The claim: with an empty subject list, or any input whose pooled candidate set is
  empty, \<open>apply_afid_model\<close> fails with \<open>EmptyCandidateSetError\<close>. With an empty
  subject list the code fails with Python's \<open>ValueError\<close>, raised by the unpacking.
\<close>

theorem empty_subject_list_counterexample:
  "fst (apply_afid_model stub_env 1 [] [] ''models'' ((), ()) 0 5 1 fresh_world)
     = Inl ValueError
 \<and> fst (apply_afid_model stub_env 1 [] [] ''models'' ((), ()) 0 5 1 fresh_world)
     \<noteq> Inl EmptyCandidateSetError"
  by (simp add: apply_afid_model_def unpack3_def)

text \<open>
  C7, as amended. With an empty list of subject paths, or of fcsv paths,
  \<open>apply_afid_model\<close> fails with \<open>ValueError\<close> (not enough values to unpack) before any
  model is opened. When the feature generator returns no candidate voxel for the one
  subject, the call fails and returns no coordinate; when the model predicts no score,
  the failure is the \<open>ValueError\<close> of \<open>idxmax\<close> on an empty series. No call fails with
  \<open>EmptyCandidateSetError\<close>.
\<close>

theorem empty_candidates_ValueError:
  "(subject_paths = [] \<or> fcsv_paths = [] \<longrightarrow>
      apply_afid_model E afid_num subject_paths fcsv_paths model_dir_path feature_offsets
        padding sampling_rate size' w = (Inl ValueError, w))
 \<and> (zip subject_paths fcsv_paths = [(sp, fp)]
      \<and> get_fid E fp (afid_num - 1) = Inr fid
      \<and> gen_features E sp fid feature_offsets padding sampling_rate size' True
            = Inr (aff, diff, [])
      \<longrightarrow> (\<exists>e. fst (apply_afid_model E afid_num subject_paths fcsv_paths model_dir_path
                      feature_offsets padding sampling_rate size' w) = Inl e))
 \<and> (zip subject_paths fcsv_paths = [(sp, fp)]
      \<and> get_fid E fp (afid_num - 1) = Inr fid
      \<and> gen_features E sp fid feature_offsets padding sampling_rate size' True
            = Inr (aff, diff, samples)
      \<and> model_files E model_dir_path (model_fname afid_num sampling_rate) = Some regr_rf
      \<and> regr_rf diff = Inr []
      \<longrightarrow> fst (apply_afid_model E afid_num subject_paths fcsv_paths model_dir_path
                 feature_offsets padding sampling_rate size' w) = Inl ValueError)
 \<and> fst (apply_afid_model E afid_num subject_paths fcsv_paths model_dir_path
           feature_offsets padding sampling_rate size' w) \<noteq> Inl EmptyCandidateSetError"
proof (intro conjI impI)
  assume "subject_paths = [] \<or> fcsv_paths = []"
  then show "apply_afid_model E afid_num subject_paths fcsv_paths model_dir_path
        feature_offsets padding sampling_rate size' w = (Inl ValueError, w)"
    by (rule apply_afid_model_empty)
next
  assume h: "zip subject_paths fcsv_paths = [(sp, fp)]
      \<and> get_fid E fp (afid_num - 1) = Inr fid
      \<and> gen_features E sp fid feature_offsets padding sampling_rate size' True
            = Inr (aff, diff, [])"
  show "\<exists>e. fst (apply_afid_model E afid_num subject_paths fcsv_paths model_dir_path
                      feature_offsets padding sampling_rate size' w) = Inl e"
  proof (cases "fst (apply_afid_model E afid_num subject_paths fcsv_paths model_dir_path
                      feature_offsets padding sampling_rate size' w)")
    case (Inl e)
    then show ?thesis by blast
  next
    case (Inr c)
    from apply_afid_model_Inr [OF Inr] h show ?thesis by auto
  qed
next
  assume h: "zip subject_paths fcsv_paths = [(sp, fp)]
      \<and> get_fid E fp (afid_num - 1) = Inr fid
      \<and> gen_features E sp fid feature_offsets padding sampling_rate size' True
            = Inr (aff, diff, samples)
      \<and> model_files E model_dir_path (model_fname afid_num sampling_rate) = Some regr_rf
      \<and> regr_rf diff = Inr []"
  then have z: "zip subject_paths fcsv_paths = [(sp, fp)]"
    and f: "get_fid E fp (afid_num - 1) = Inr fid"
    and g: "gen_features E sp fid feature_offsets padding sampling_rate size' True
            = Inr (aff, diff, samples)"
    and m: "model_files E model_dir_path (model_fname afid_num sampling_rate) = Some regr_rf"
    and p: "regr_rf diff = Inr []"
    by simp_all
  show "fst (apply_afid_model E afid_num subject_paths fcsv_paths model_dir_path
                 feature_offsets padding sampling_rate size' w) = Inl ValueError"
    unfolding apply_afid_model_single [OF z f g]
    by (simp add: Let_def m p idxmax_def)
next
  show "fst (apply_afid_model E afid_num subject_paths fcsv_paths model_dir_path
           feature_offsets padding sampling_rate size' w) \<noteq> Inl EmptyCandidateSetError"
    using apply_afid_model_never_spec_error by blast
qed

theorem empty_candidates_ValueError_witness:
  "apply_afid_model stub_env 4 [] [''sub-01.fcsv''] ''models'' ((), ()) 0 5 1 fresh_world
      = (Inl ValueError, fresh_world)
 \<and> fst (apply_afid_model no_candidates_env 4 [''sub-01.nii''] [''sub-01.fcsv''] ''models''
           ((), ()) 0 5 1 fresh_world) = Inl ValueError"
proof -
  have a: "apply_afid_model stub_env 4 [] [''sub-01.fcsv''] ''models'' ((), ()) 0 5 1
             fresh_world = (Inl ValueError, fresh_world)"
    using empty_candidates_ValueError [where subject_paths = "[]"
        and fcsv_paths = "[''sub-01.fcsv'']" and E = stub_env and afid_num = 4
        and model_dir_path = "''models''" and feature_offsets = "((), ())" and padding = 0
        and sampling_rate = 5 and size' = 1 and w = fresh_world]
    by simp
  have z: "zip [''sub-01.nii''] [''sub-01.fcsv''] = [(''sub-01.nii'', ''sub-01.fcsv'')]"
    by simp
  have f: "get_fid no_candidates_env ''sub-01.fcsv'' (4 - 1) = Inr ()"
    by (simp add: no_candidates_env_def stub_env_def)
  have g: "gen_features no_candidates_env ''sub-01.nii'' () ((), ()) 0 5 1 True
             = Inr (identity_affine, [], [])"
    by (simp add: no_candidates_env_def stub_env_def)
  have m: "model_files no_candidates_env ''models'' (model_fname 4 5) = Some (\<lambda>diff. Inr [])"
    by (simp add: no_candidates_env_def stub_env_def)
  have p: "(\<lambda>diff. Inr []) ([] :: unit list) = (Inr [] :: string + real list)"
    by simp
  have b: "fst (apply_afid_model no_candidates_env 4 [''sub-01.nii''] [''sub-01.fcsv'']
             ''models'' ((), ()) 0 5 1 fresh_world) = Inl ValueError"
    using empty_candidates_ValueError [where subject_paths = "[''sub-01.nii'']"
        and fcsv_paths = "[''sub-01.fcsv'']" and E = no_candidates_env and afid_num = 4
        and model_dir_path = "''models''" and feature_offsets = "((), ())" and padding = 0
        and sampling_rate = 5 and size' = 1 and w = fresh_world
        and sp = "''sub-01.nii''" and fp = "''sub-01.fcsv''" and fid = "()"
        and aff = identity_affine and diff = "[]" and samples = "[]"
        and regr_rf = "\<lambda>diff. Inr []"] z f g m p
    by blast
  from a b show ?thesis by simp
qed

text \<open>
  C8. The claim: when the list of subject paths and the list of fcsv paths differ in
  length, the run fails with \<open>MismatchedInputLengthError\<close>. With one subject path and
  two fcsv paths the code returns a coordinate: \<open>zip\<close> stops at the shorter list.
\<close>

theorem mismatched_lengths_counterexample:
  "length [''sub-01.nii''] \<noteq> length [''sub-01.fcsv'', ''sub-02.fcsv'']
 \<and> fst (apply_afid_model stub_env 1 [''sub-01.nii''] [''sub-01.fcsv'', ''sub-02.fcsv'']
           ''models'' ((), ()) 0 5 1 fresh_world) = Inr (2, 2, 2)"
  by (simp add: apply_afid_model_def unpack3_def features_of_def stub_env_def stub_model_def
        identity_affine_def idxmax_def getitem_def Let_def)

text \<open>
  C8, as amended. The two lists are paired by \<open>zip\<close>, which stops at the end of the
  shorter one, and their lengths are not compared: \<open>apply_afid_model\<close> does exactly
  what it does on the two lists cut to their common length, and no call fails with
  \<open>MismatchedInputLengthError\<close>.
\<close>

theorem mismatched_lengths_truncated:
  "apply_afid_model E afid_num subject_paths fcsv_paths model_dir_path feature_offsets
     padding sampling_rate size' w
   = apply_afid_model E afid_num
       (take (min (length subject_paths) (length fcsv_paths)) subject_paths)
       (take (min (length subject_paths) (length fcsv_paths)) fcsv_paths)
       model_dir_path feature_offsets padding sampling_rate size' w
 \<and> fst (apply_afid_model E afid_num subject_paths fcsv_paths model_dir_path feature_offsets
          padding sampling_rate size' w) \<noteq> Inl MismatchedInputLengthError"
proof -
  let ?k = "min (length subject_paths) (length fcsv_paths)"
  have "zip (take ?k subject_paths) (take ?k fcsv_paths) = take ?k (zip subject_paths fcsv_paths)"
    by (simp add: take_zip)
  also have "\<dots> = zip subject_paths fcsv_paths" by simp
  finally have "zip (take ?k subject_paths) (take ?k fcsv_paths) = zip subject_paths fcsv_paths" .
  then have "apply_afid_model E afid_num subject_paths fcsv_paths model_dir_path
     feature_offsets padding sampling_rate size' w
   = apply_afid_model E afid_num (take ?k subject_paths) (take ?k fcsv_paths)
       model_dir_path feature_offsets padding sampling_rate size' w"
    by (simp add: apply_afid_model_def)
  then show ?thesis using apply_afid_model_never_spec_error by blast
qed

theorem mismatched_lengths_truncated_witness:
  "apply_afid_model stub_env 1 [''sub-01.nii''] [''sub-01.fcsv'', ''sub-02.fcsv'']
     ''models'' ((), ()) 0 5 1 fresh_world
   = apply_afid_model stub_env 1 [''sub-01.nii''] [''sub-01.fcsv'']
     ''models'' ((), ()) 0 5 1 fresh_world"
  using mismatched_lengths_truncated [where subject_paths = "[''sub-01.nii'']"
      and fcsv_paths = "[''sub-01.fcsv'', ''sub-02.fcsv'']" and E = stub_env and afid_num = 1
      and model_dir_path = "''models''" and feature_offsets = "((), ())" and padding = 0
      and sampling_rate = 5 and size' = 1 and w = fresh_world]
  by simp

text \<open>
  C9. The claim: when the model file of the fiducial is absent from the model directory,
  \<open>apply_afid_model\<close> fails with \<open>ModelNotFoundError\<close>, not with a generic
  file-not-found error. With an empty model directory the code fails with Python's
  \<open>FileNotFoundError\<close>, which \<open>joblib.load\<close> lets through.
\<close>

theorem missing_model_counterexample:
  "model_files no_models_env ''models'' (model_fname 1 5) = None
 \<and> fst (apply_afid_model no_models_env 1 [''sub-01.nii''] [''sub-01.fcsv''] ''models''
          ((), ()) 0 5 1 fresh_world) = Inl FileNotFoundError
 \<and> fst (apply_afid_model no_models_env 1 [''sub-01.nii''] [''sub-01.fcsv''] ''models''
          ((), ()) 0 5 1 fresh_world) \<noteq> Inl ModelNotFoundError"
  by (simp add: apply_afid_model_def unpack3_def features_of_def no_models_env_def
        stub_env_def Let_def)

text \<open>
  C9, as amended. When the model file of the fiducial is absent, \<open>apply_afid_model\<close>
  fails, and never with \<open>ModelNotFoundError\<close>; once the feature generation of its one
  subject has succeeded, the failure is the generic \<open>FileNotFoundError\<close> of the attempt
  to open the file named \<open>model_fname afid_num sampling_rate\<close>.
\<close>

theorem missing_model_FileNotFoundError:
  assumes "model_files E model_dir_path (model_fname afid_num sampling_rate) = None"
  shows "(\<exists>e. fst (apply_afid_model E afid_num subject_paths fcsv_paths model_dir_path
                   feature_offsets padding sampling_rate size' w) = Inl e
              \<and> e \<noteq> ModelNotFoundError)
       \<and> (zip subject_paths fcsv_paths = [(sp, fp)]
            \<and> get_fid E fp (afid_num - 1) = Inr fid
            \<and> gen_features E sp fid feature_offsets padding sampling_rate size' True
                 = Inr (aff, diff, samples)
          \<longrightarrow> apply_afid_model E afid_num subject_paths fcsv_paths model_dir_path
                 feature_offsets padding sampling_rate size' w
               = (Inl FileNotFoundError,
                  w\<lparr>opened := opened w
                      @ [(model_dir_path, model_fname afid_num sampling_rate)]\<rparr>))"
proof (intro conjI impI)
  let ?r = "fst (apply_afid_model E afid_num subject_paths fcsv_paths model_dir_path
                   feature_offsets padding sampling_rate size' w)"
  show "\<exists>e. ?r = Inl e \<and> e \<noteq> ModelNotFoundError"
  proof (cases ?r)
    case (Inl e)
    with apply_afid_model_never_spec_error [of E afid_num subject_paths fcsv_paths
        model_dir_path feature_offsets padding sampling_rate size' w]
    show ?thesis by auto
  next
    case (Inr c)
    from apply_afid_model_Inr [OF Inr] assms show ?thesis by auto
  qed
next
  assume h: "zip subject_paths fcsv_paths = [(sp, fp)]
            \<and> get_fid E fp (afid_num - 1) = Inr fid
            \<and> gen_features E sp fid feature_offsets padding sampling_rate size' True
                 = Inr (aff, diff, samples)"
  then have z: "zip subject_paths fcsv_paths = [(sp, fp)]"
    and f: "get_fid E fp (afid_num - 1) = Inr fid"
    and g: "gen_features E sp fid feature_offsets padding sampling_rate size' True
            = Inr (aff, diff, samples)"
    by simp_all
  show "apply_afid_model E afid_num subject_paths fcsv_paths model_dir_path
                 feature_offsets padding sampling_rate size' w
               = (Inl FileNotFoundError,
                  w\<lparr>opened := opened w
                      @ [(model_dir_path, model_fname afid_num sampling_rate)]\<rparr>)"
    unfolding apply_afid_model_single [OF z f g]
    by (simp add: Let_def assms)
qed

theorem missing_model_FileNotFoundError_witness:
  "model_files no_models_env ''models'' (model_fname 9 5) = None
 \<and> apply_afid_model no_models_env 9 [''sub-01.nii''] [''sub-01.fcsv''] ''models''
          ((), ()) 0 5 1 fresh_world
      = (Inl FileNotFoundError,
         \<lparr>opened = [(''models'', ''afid-09_desc-rf_sampleRate-iso5vox_model.joblib'')],
          fcsv_out = []\<rparr>)"
proof -
  have n: "model_files no_models_env ''models'' (model_fname 9 5) = None"
    by (simp add: no_models_env_def stub_env_def)
  have z: "zip [''sub-01.nii''] [''sub-01.fcsv''] = [(''sub-01.nii'', ''sub-01.fcsv'')]"
    by simp
  have f: "get_fid no_models_env ''sub-01.fcsv'' (9 - 1) = Inr ()"
    by (simp add: no_models_env_def stub_env_def)
  have g: "gen_features no_models_env ''sub-01.nii'' () ((), ()) 0 5 1 True
             = Inr (identity_affine, [(), (), ()], [(1, 1, 1), (2, 2, 2), (3, 3, 3)])"
    by (simp add: no_models_env_def stub_env_def)
  have nm: "model_fname 9 5 = ''afid-09_desc-rf_sampleRate-iso5vox_model.joblib''"
    by (simp add: model_fname_def zfill_def str_int_def str_nat.simps digit_char_def)
  from missing_model_FileNotFoundError [OF n, where subject_paths = "[''sub-01.nii'']"
      and fcsv_paths = "[''sub-01.fcsv'']" and feature_offsets = "((), ())" and padding = 0
      and size' = 1 and w = fresh_world and sp = "''sub-01.nii''" and fp = "''sub-01.fcsv''"
      and fid = "()" and aff = identity_affine and diff = "[(), (), ()]"
      and samples = "[(1, 1, 1), (2, 2, 2), (3, 3, 3)]"] z f g
  have "apply_afid_model no_models_env 9 [''sub-01.nii''] [''sub-01.fcsv''] ''models''
          ((), ()) 0 5 1 fresh_world
      = (Inl FileNotFoundError,
         fresh_world\<lparr>opened := opened fresh_world @ [(''models'', model_fname 9 5)]\<rparr>)"
    by blast
  with n show ?thesis by (simp add: nm fresh_world_def)
qed

section \<open>The whole run\<close>

subsection \<open>Lemmas on \<open>apply_all_afid_models\<close>\<close>

lemma range_1_33: "length [1..32] = 32" "i < 32 \<Longrightarrow> [1..32] ! i = int i + 1"
  "n \<in> set [1..32] \<longleftrightarrow> 1 \<le> n \<and> n \<le> 32"
  by simp_all

lemma run_success:
  assumes "np_load E fop = Inr fo" "fo ''arr_0'' = Some a0" "fo ''arr_1'' = Some a1"
    and "\<forall>n\<in>set [1..32].
           fst (apply_afid_model E n subs fcsvs dir (a0, a1) pad sz sr w0) = Inr (coords n)"
  shows "apply_all_afid_models E subs fcsvs fop dir pad sz sr w
           = (Inr (),
              w\<lparr>opened := opened w @ map (\<lambda>n. (dir, model_fname n sz)) [1..32],
                fcsv_out := fcsv_out w @ [map (\<lambda>n. astype_int_row (coords n)) [1..32]]\<rparr>)"
proof -
  have "afid_loop E subs fcsvs dir fo pad sz sr [1..32] [np_empty E] w
           = (Inr ([np_empty E] @ map coords [1..32]),
              w\<lparr>opened := opened w @ map (\<lambda>n. (dir, model_fname n sz)) [1..32]\<rparr>)"
    using assms(2,3,4) by (rule afid_loop_success)
  then show ?thesis
    by (simp add: apply_all_afid_models_def assms(1) comp_def)
qed

lemma run_Inr:
  assumes "fst (apply_all_afid_models E subs fcsvs fop dir pad sz sr w) = Inr u"
  shows "\<exists>fo a0 a1.
        np_load E fop = Inr fo \<and> fo ''arr_0'' = Some a0 \<and> fo ''arr_1'' = Some a1
      \<and> (\<forall>n\<in>set [1..32]. \<exists>c.
            fst (apply_afid_model E n subs fcsvs dir (a0, a1) pad sz sr w) = Inr c)
      \<and> snd (apply_all_afid_models E subs fcsvs fop dir pad sz sr w)
          = w\<lparr>opened := opened w @ map (\<lambda>n. (dir, model_fname n sz)) [1..32],
              fcsv_out := fcsv_out w @ [map (\<lambda>n. astype_int_row (projr (fst
                 (apply_afid_model E n subs fcsvs dir (a0, a1) pad sz sr w)))) [1..32]]\<rparr>"
proof -
  from assms obtain fo where fo: "np_load E fop = Inr fo"
    by (cases "np_load E fop") (simp_all add: apply_all_afid_models_def)
  obtain r w' where l: "afid_loop E subs fcsvs dir fo pad sz sr [1..32] [np_empty E] w = (r, w')"
    by (cases "afid_loop E subs fcsvs dir fo pad sz sr [1..32] [np_empty E] w")
  from assms fo l obtain all where r: "r = Inr all"
    by (cases r) (simp_all add: apply_all_afid_models_def)
  have ne: "[1..32] = 1 # [2..32]" by (simp add: upto_rec1)
  from l r have "afid_loop E subs fcsvs dir fo pad sz sr (1 # [2..32]) [np_empty E] w
                   = (Inr all, w')" by (simp add: ne)
  from afid_loop_keys [OF this] obtain a0 a1 where
    k: "fo ''arr_0'' = Some a0" "fo ''arr_1'' = Some a1" by blast
  from l r have l': "afid_loop E subs fcsvs dir fo pad sz sr [1..32] [np_empty E] w
                   = (Inr all, w')" by simp
  note inv = afid_loop_Inr [OF k l', of w]
  from inv have all: "all = [np_empty E] @ map (\<lambda>n. projr (fst
                  (apply_afid_model E n subs fcsvs dir (a0, a1) pad sz sr w))) [1..32]"
    and w': "w' = w\<lparr>opened := opened w @ map (\<lambda>n. (dir, model_fname n sz)) [1..32]\<rparr>"
    and ok: "\<forall>n\<in>set [1..32]. \<exists>c.
            fst (apply_afid_model E n subs fcsvs dir (a0, a1) pad sz sr w) = Inr c"
    by blast+
  have "snd (apply_all_afid_models E subs fcsvs fop dir pad sz sr w)
          = w'\<lparr>fcsv_out := fcsv_out w' @ [map astype_int_row (tl all)]\<rparr>"
    by (simp add: apply_all_afid_models_def fo l' )
  also have "\<dots> = w\<lparr>opened := opened w @ map (\<lambda>n. (dir, model_fname n sz)) [1..32],
              fcsv_out := fcsv_out w @ [map (\<lambda>n. astype_int_row (projr (fst
                 (apply_afid_model E n subs fcsvs dir (a0, a1) pad sz sr w)))) [1..32]]\<rparr>"
    by (simp add: all w' comp_def)
  finally show ?thesis using fo k ok by blast
qed

lemma run_Inl:
  assumes "fst (apply_all_afid_models E subs fcsvs fop dir pad sz sr w) = Inl e"
  shows "fcsv_out (snd (apply_all_afid_models E subs fcsvs fop dir pad sz sr w)) = fcsv_out w"
proof (cases "np_load E fop")
  case (Inl msg)
  then show ?thesis by (simp add: apply_all_afid_models_def)
next
  case (Inr fo)
  obtain r w' where l: "afid_loop E subs fcsvs dir fo pad sz sr [1..32] [np_empty E] w = (r, w')"
    by (cases "afid_loop E subs fcsvs dir fo pad sz sr [1..32] [np_empty E] w")
  from afid_loop_fcsv_out [of E subs fcsvs dir fo pad sz sr "[1..32]" "[np_empty E]" w] l
  have w': "fcsv_out w' = fcsv_out w" by simp
  from assms Inr l obtain e' where "r = Inl e'"
    by (cases r) (simp_all add: apply_all_afid_models_def)
  with Inr l w' show ?thesis by (simp add: apply_all_afid_models_def)
qed

lemma run_fails:
  assumes "np_load E fop = Inr fo" "fo ''arr_0'' = Some a0" "fo ''arr_1'' = Some a1"
    and "1 \<le> n" "n \<le> 32"
    and "fst (apply_afid_model E n subs fcsvs dir (a0, a1) pad sz sr w0) = Inl e"
  shows "\<exists>e'. fst (apply_all_afid_models E subs fcsvs fop dir pad sz sr w) = Inl e'"
proof -
  from assms(4,5) have "n \<in> set [1..32]" by simp
  from afid_loop_fails [OF assms(2,3) this assms(6), of "[np_empty E]" w]
  obtain e' where
    "fst (afid_loop E subs fcsvs dir fo pad sz sr [1..32] [np_empty E] w) = Inl e'" by blast
  then show ?thesis
    by (auto simp: apply_all_afid_models_def assms(1) split: prod.splits sum.splits)
qed

lemma run_opened:
  "\<exists>k\<le>32. opened (snd (apply_all_afid_models E subs fcsvs fop dir pad sz sr w))
             = opened w @ map (\<lambda>n. (dir, model_fname n sz)) (take k [1..32])"
proof (cases "np_load E fop")
  case (Inl msg)
  then have "opened (snd (apply_all_afid_models E subs fcsvs fop dir pad sz sr w))
             = opened w @ map (\<lambda>n. (dir, model_fname n sz)) (take 0 [1..32])"
    by (simp add: apply_all_afid_models_def)
  then show ?thesis by blast
next
  case (Inr fo)
  from afid_loop_opened [of "[1..32]" E subs fcsvs dir fo pad sz sr "[np_empty E]" w]
  obtain k where k: "k \<le> length [1..32]"
    "opened (snd (afid_loop E subs fcsvs dir fo pad sz sr [1..32] [np_empty E] w))
        = opened w @ map (\<lambda>n. (dir, model_fname n sz)) (take k [1..32])" by blast
  have "opened (snd (apply_all_afid_models E subs fcsvs fop dir pad sz sr w))
      = opened (snd (afid_loop E subs fcsvs dir fo pad sz sr [1..32] [np_empty E] w))"
    by (simp add: apply_all_afid_models_def Inr split: prod.splits sum.splits)
  with k show ?thesis by auto
qed

lemma astype_int_int64: "- (2 ^ 63) \<le> astype_int x \<and> astype_int x \<le> 2 ^ 63 - 1"
proof (cases "fits_int64 x")
  case False
  then show ?thesis by (simp add: astype_int_def)
next
  case True
  then have b: "- (2 ^ 63) - 1 < x" "x < 2 ^ 63" by (simp_all add: fits_int64_def)
  show ?thesis
  proof (cases "0 \<le> x")
    case nonneg: True
    from b(2) have "\<lfloor>x\<rfloor> < 2 ^ 63" by (simp add: floor_less_iff)
    moreover from nonneg have "0 \<le> \<lfloor>x\<rfloor>" by simp
    ultimately show ?thesis using True nonneg by (simp add: astype_int_def)
  next
    case neg: False
    from b(1) have "- (2 ^ 63) - 1 < \<lceil>x\<rceil>" by (simp add: less_ceiling_iff)
    moreover from neg have "\<lceil>x\<rceil> \<le> 0" by (simp add: ceiling_le_iff)
    ultimately show ?thesis using True neg by (simp add: astype_int_def)
  qed
qed

lemma astype_int_truncation:
  "fits_int64 x \<Longrightarrow> truncation_toward_zero x (astype_int x)"
  unfolding truncation_toward_zero_def astype_int_def
  by (cases "0 \<le> x") (simp_all, linarith+)

lemma truncation_unique:
  assumes "fits_int64 x" and "truncation_toward_zero x k"
  shows "k = astype_int x"
proof (cases "0 \<le> x")
  case True
  with assms(2) have "real_of_int k \<le> x" "x < real_of_int k + 1"
    unfolding truncation_toward_zero_def by linarith+
  then have "\<lfloor>x\<rfloor> = k" by (simp add: floor_unique)
  with True assms(1) show ?thesis by (simp add: astype_int_def)
next
  case False
  with assms(2) have "x \<le> real_of_int k" "real_of_int k - 1 < x"
    unfolding truncation_toward_zero_def by linarith+
  then have "\<lceil>x\<rceil> = k" by (simp add: ceiling_unique)
  with False assms(1) show ?thesis by (simp add: astype_int_def)
qed

lemma huge_locator:
  "apply_afid_model huge_env n [sp] [fp] dir offs pad sr sz w
     = (Inr (10000000000000000000, 2, 2),
        w\<lparr>opened := opened w @ [(dir, model_fname n sr)]\<rparr>)"
  by (simp add: apply_afid_model_def unpack3_def features_of_def huge_env_def stub_env_def
        stub_model_def huge_affine_def idxmax_def getitem_def Let_def)

lemma huge_run:
  "apply_all_afid_models huge_env [sp] [fp] fop dir pad sz sr w
     = (Inr (),
        w\<lparr>opened := opened w @ map (\<lambda>n. (dir, model_fname n sz)) [1..32],
          fcsv_out := fcsv_out w @ [replicate 32 (- (2 ^ 63), 2, 2)]\<rparr>)"
proof -
  have "apply_all_afid_models huge_env [sp] [fp] fop dir pad sz sr w
     = (Inr (),
        w\<lparr>opened := opened w @ map (\<lambda>n. (dir, model_fname n sz)) [1..32],
          fcsv_out := fcsv_out w
            @ [map (\<lambda>n. astype_int_row ((\<lambda>n. (10000000000000000000, 2, 2)) n))
                 [1..32]]\<rparr>)"
    by (rule run_success [where fo = "\<lambda>key. Some ()" and ?a0.0 = "()" and ?a1.0 = "()"
          and ?w0.0 = w])
       (simp_all add: huge_locator, simp_all add: huge_env_def stub_env_def)
  moreover have "map (\<lambda>n. astype_int_row ((\<lambda>n. (10000000000000000000, 2, 2)) n)) [1..32]
        = replicate 32 (- (2 ^ 63), 2, 2)"
    by (simp add: map_replicate_const astype_int_def fits_int64_def)
  ultimately show ?thesis by simp
qed

lemma shifted_locator:
  "apply_afid_model shifted_env n [sp] [fp] dir offs pad sr sz w
     = (Inr (2.9, - 1.7, 2.5), w\<lparr>opened := opened w @ [(dir, model_fname n sr)]\<rparr>)"
  by (simp add: apply_afid_model_def unpack3_def features_of_def shifted_env_def stub_env_def
        stub_model_def shifted_affine_def idxmax_def getitem_def Let_def)

lemma stub_run:
  "apply_all_afid_models stub_env [sp] [fp] fop dir pad sz sr w
     = (Inr (),
        w\<lparr>opened := opened w @ map (\<lambda>n. (dir, model_fname n sz)) [1..32],
          fcsv_out := fcsv_out w @ [map (\<lambda>n. (2, 2, 2)) [1..32]]\<rparr>)"
proof -
  have "apply_all_afid_models stub_env [sp] [fp] fop dir pad sz sr w
     = (Inr (),
        w\<lparr>opened := opened w @ map (\<lambda>n. (dir, model_fname n sz)) [1..32],
          fcsv_out := fcsv_out w @ [map (\<lambda>n. astype_int_row ((\<lambda>n. (2, 2, 2)) n)) [1..32]]\<rparr>)"
    by (rule run_success [where fo = "\<lambda>key. Some ()" and ?a0.0 = "()" and ?a1.0 = "()"
          and ?w0.0 = w])
       (simp_all add: stub_locator, simp_all add: stub_env_def)
  then show ?thesis by (simp add: astype_int_def fits_int64_def)
qed

lemma shifted_run:
  "apply_all_afid_models shifted_env [sp] [fp] fop dir pad sz sr w
     = (Inr (),
        w\<lparr>opened := opened w @ map (\<lambda>n. (dir, model_fname n sz)) [1..32],
          fcsv_out := fcsv_out w @ [map (\<lambda>n. (2, - 1, 2)) [1..32]]\<rparr>)"
proof -
  have "apply_all_afid_models shifted_env [sp] [fp] fop dir pad sz sr w
     = (Inr (),
        w\<lparr>opened := opened w @ map (\<lambda>n. (dir, model_fname n sz)) [1..32],
          fcsv_out := fcsv_out w
            @ [map (\<lambda>n. astype_int_row ((\<lambda>n. (2.9, - 1.7, 2.5)) n)) [1..32]]\<rparr>)"
    by (rule run_success [where fo = "\<lambda>key. Some ()" and ?a0.0 = "()" and ?a1.0 = "()"
          and ?w0.0 = w])
       (simp_all add: shifted_locator, simp_all add: shifted_env_def stub_env_def)
  then show ?thesis by (simp add: astype_int_def fits_int64_def)
qed

lemma no_models_run:
  "apply_all_afid_models no_models_env [sp] [fp] fop dir pad sz sr w
     = (Inl FileNotFoundError, w\<lparr>opened := opened w @ [(dir, model_fname 1 sz)]\<rparr>)"
  by (simp add: apply_all_afid_models_def upto_rec1 npz_get_def no_models_env_def
       apply_afid_model_def unpack3_def features_of_def stub_env_def Let_def)

lemma run_rows:
  assumes "fst (apply_all_afid_models E subject_paths fcsv_paths feature_offsets_path
           model_dir_path padding size' sampling_rate w) = Inr ()"
  shows "\<exists>fo arr_0 arr_1 rows.
              np_load E feature_offsets_path = Inr fo
            \<and> fo ''arr_0'' = Some arr_0 \<and> fo ''arr_1'' = Some arr_1
            \<and> fcsv_out (snd (apply_all_afid_models E subject_paths fcsv_paths
                   feature_offsets_path model_dir_path padding size' sampling_rate w))
                = fcsv_out w @ [rows]
            \<and> length rows = 32
            \<and> (\<forall>i<32. \<exists>c.
                  fst (apply_afid_model E (int i + 1) subject_paths fcsv_paths model_dir_path
                         (arr_0, arr_1) padding size' sampling_rate w) = Inr c
                \<and> rows ! i = astype_int_row c)"
proof -
  let ?run = "apply_all_afid_models E subject_paths fcsv_paths feature_offsets_path
           model_dir_path padding size' sampling_rate w"
  from run_Inr [OF assms] obtain fo arr_0 arr_1 where
    h: "np_load E feature_offsets_path = Inr fo"
       "fo ''arr_0'' = Some arr_0" "fo ''arr_1'' = Some arr_1"
       "\<forall>n\<in>set [1..32]. \<exists>c.
            fst (apply_afid_model E n subject_paths fcsv_paths model_dir_path
                   (arr_0, arr_1) padding size' sampling_rate w) = Inr c"
       "snd ?run
          = w\<lparr>opened := opened w
                  @ map (\<lambda>n. (model_dir_path, model_fname n size')) [1..32],
              fcsv_out := fcsv_out w @ [map (\<lambda>n. astype_int_row (projr (fst
                 (apply_afid_model E n subject_paths fcsv_paths model_dir_path
                    (arr_0, arr_1) padding size' sampling_rate w)))) [1..32]]\<rparr>"
    by blast
  let ?loc = "\<lambda>n. fst (apply_afid_model E n subject_paths fcsv_paths model_dir_path
                    (arr_0, arr_1) padding size' sampling_rate w)"
  let ?rows = "map (\<lambda>n. astype_int_row (projr (?loc n))) [1..32]"
  have out: "fcsv_out (snd ?run) = fcsv_out w @ [?rows]" by (simp add: h(5))
  have len: "length ?rows = 32" by simp
  have rows: "\<forall>i<32. \<exists>c. ?loc (int i + 1) = Inr c \<and> ?rows ! i = astype_int_row c"
  proof (intro allI impI)
    fix i :: nat assume i: "i < 32"
    then have "int i + 1 \<in> set [1..32]" by simp
    with h(4) obtain c where c: "?loc (int i + 1) = Inr c" by blast
    from i have "?rows ! i = astype_int_row (projr (?loc (int i + 1)))"
      by (simp add: add.commute)
    with c show "\<exists>c. ?loc (int i + 1) = Inr c \<and> ?rows ! i = astype_int_row c" by simp
  qed
  from h(1,2,3) out len rows show ?thesis by blast
qed

subsection \<open>The claims on the run\<close>

text \<open>
  C4. The claim: each of the 32 calls of a run with sampling rate \<open>r\<close> and resampling
  size \<open>s\<close> loads the file \<open>afid-NN_desc-rf_sampleRate-iso{r}vox_model.joblib\<close>; the
  name encodes \<open>r\<close>, never \<open>s\<close>.

  \<open>apply_afid_model\<close> takes \<open>padding, sampling_rate, size\<close> in this order, and
  \<open>apply_all_afid_models\<close> passes \<open>padding, size, sampling_rate\<close> by position. So the
  name is built from the run's \<open>size\<close>: the files a run tries to open are, in order,
  those named \<open>model_fname afid_num size\<close> for the first fiducials, all 32 when the run
  succeeds. With the defaults (size 1, sampling rate 5) a directory that holds exactly
  the 32 files named with \<open>iso5\<close> makes the run fail at the first fiducial, on the
  missing \<open>iso1\<close> file.
\<close>

theorem model_file_named_by_resampling_size:
  "(\<exists>k\<le>32.
      opened (snd (apply_all_afid_models E subject_paths fcsv_paths feature_offsets_path
                     model_dir_path padding size' sampling_rate w))
        = opened w
          @ map (\<lambda>afid_num. (model_dir_path, model_fname afid_num size')) (take k [1..32]))
 \<and> (fst (apply_all_afid_models E subject_paths fcsv_paths feature_offsets_path
            model_dir_path padding size' sampling_rate w) = Inr ()
      \<longrightarrow> opened (snd (apply_all_afid_models E subject_paths fcsv_paths feature_offsets_path
                         model_dir_path padding size' sampling_rate w))
            = opened w
              @ map (\<lambda>afid_num. (model_dir_path, model_fname afid_num size')) [1..32])"
proof (intro conjI impI)
  show "\<exists>k\<le>32.
      opened (snd (apply_all_afid_models E subject_paths fcsv_paths feature_offsets_path
                     model_dir_path padding size' sampling_rate w))
        = opened w
          @ map (\<lambda>afid_num. (model_dir_path, model_fname afid_num size')) (take k [1..32])"
    by (rule run_opened)
next
  assume "fst (apply_all_afid_models E subject_paths fcsv_paths feature_offsets_path
            model_dir_path padding size' sampling_rate w) = Inr ()"
  from run_Inr [OF this] show
    "opened (snd (apply_all_afid_models E subject_paths fcsv_paths feature_offsets_path
                         model_dir_path padding size' sampling_rate w))
            = opened w
              @ map (\<lambda>afid_num. (model_dir_path, model_fname afid_num size')) [1..32]"
    by auto
qed

theorem model_file_named_by_resampling_size_witness:
  "fst (apply_all_afid_models stub_env [''sub-01.nii''] [''sub-01.fcsv''] ''offsets.npz''
          ''models'' 0 1 5 fresh_world) = Inr ()
 \<and> opened (snd (apply_all_afid_models stub_env [''sub-01.nii''] [''sub-01.fcsv'']
                  ''offsets.npz'' ''models'' 0 1 5 fresh_world))
      = map (\<lambda>afid_num. (''models'', model_fname afid_num 1)) [1..32]
 \<and> model_fname 1 1 = ''afid-01_desc-rf_sampleRate-iso1vox_model.joblib''
 \<and> model_fname 32 1 = ''afid-32_desc-rf_sampleRate-iso1vox_model.joblib''
 \<and> model_fname 1 5 = ''afid-01_desc-rf_sampleRate-iso5vox_model.joblib''
 \<and> apply_all_afid_models (rate_named_env 5) [''sub-01.nii''] [''sub-01.fcsv'']
      ''offsets.npz'' ''models'' 0 1 5 fresh_world
      = (Inl FileNotFoundError,
         \<lparr>opened = [(''models'', ''afid-01_desc-rf_sampleRate-iso1vox_model.joblib'')],
          fcsv_out = []\<rparr>)"
proof -
  have ok: "fst (apply_all_afid_models stub_env [''sub-01.nii''] [''sub-01.fcsv'']
              ''offsets.npz'' ''models'' 0 1 5 fresh_world) = Inr ()"
    by (simp add: stub_run)
  from model_file_named_by_resampling_size [where E = stub_env
      and subject_paths = "[''sub-01.nii'']" and fcsv_paths = "[''sub-01.fcsv'']"
      and feature_offsets_path = "''offsets.npz''" and model_dir_path = "''models''"
      and padding = 0 and size' = 1 and sampling_rate = 5 and w = fresh_world] ok
  have names: "opened (snd (apply_all_afid_models stub_env [''sub-01.nii''] [''sub-01.fcsv'']
                  ''offsets.npz'' ''models'' 0 1 5 fresh_world))
      = map (\<lambda>afid_num. (''models'', model_fname afid_num 1)) [1..32]"
    by (simp add: fresh_world_def)
  have n1: "model_fname 1 1 = ''afid-01_desc-rf_sampleRate-iso1vox_model.joblib''"
    and n2: "model_fname 32 1 = ''afid-32_desc-rf_sampleRate-iso1vox_model.joblib''"
    and n3: "model_fname 1 5 = ''afid-01_desc-rf_sampleRate-iso5vox_model.joblib''"
    by (simp_all add: model_fname_def zfill_def str_int_def str_nat.simps digit_char_def)
  have bad: "apply_all_afid_models (rate_named_env 5) [''sub-01.nii''] [''sub-01.fcsv'']
      ''offsets.npz'' ''models'' 0 1 5 fresh_world
      = (Inl FileNotFoundError,
         \<lparr>opened = [(''models'', ''afid-01_desc-rf_sampleRate-iso1vox_model.joblib'')],
          fcsv_out = []\<rparr>)"
    by (simp add: apply_all_afid_models_def upto_rec1 npz_get_def rate_named_env_def
       apply_afid_model_def unpack3_def features_of_def stub_env_def stub_model_def
        identity_affine_def idxmax_def getitem_def Let_def fresh_world_def
       model_fname_def zfill_def str_int_def str_nat.simps digit_char_def)
  from ok names n1 n2 n3 bad show ?thesis by simp
qed

text \<open>
  C5. When the run succeeds, one table is passed to the writer; it has 32 rows, and
  row \<open>i\<close> (from 0) is the result of \<open>apply_afid_model\<close> for the fiducial \<open>i + 1\<close>,
  each component cast to an integer. When \<open>apply_afid_model\<close> fails for some fiducial
  between 1 and 32, the run fails; and a run that fails has passed nothing to the
  writer.
\<close>

theorem aggregator_32_rows_all_or_nothing:
  "(fst (apply_all_afid_models E subject_paths fcsv_paths feature_offsets_path
           model_dir_path padding size' sampling_rate w) = Inr ()
      \<longrightarrow> (\<exists>fo arr_0 arr_1 rows.
              np_load E feature_offsets_path = Inr fo
            \<and> fo ''arr_0'' = Some arr_0 \<and> fo ''arr_1'' = Some arr_1
            \<and> fcsv_out (snd (apply_all_afid_models E subject_paths fcsv_paths
                   feature_offsets_path model_dir_path padding size' sampling_rate w))
                = fcsv_out w @ [rows]
            \<and> length rows = 32
            \<and> (\<forall>i<32. \<exists>c.
                  fst (apply_afid_model E (int i + 1) subject_paths fcsv_paths model_dir_path
                         (arr_0, arr_1) padding size' sampling_rate w) = Inr c
                \<and> rows ! i = astype_int_row c)))
 \<and> (np_load E feature_offsets_path = Inr fo
      \<and> fo ''arr_0'' = Some a0 \<and> fo ''arr_1'' = Some a1
      \<and> 1 \<le> n \<and> n \<le> 32
      \<and> fst (apply_afid_model E n subject_paths fcsv_paths model_dir_path
                (a0, a1) padding size' sampling_rate w) = Inl e
      \<longrightarrow> (\<exists>e'. fst (apply_all_afid_models E subject_paths fcsv_paths feature_offsets_path
                       model_dir_path padding size' sampling_rate w) = Inl e'))
 \<and> (\<forall>e. fst (apply_all_afid_models E subject_paths fcsv_paths feature_offsets_path
               model_dir_path padding size' sampling_rate w) = Inl e
      \<longrightarrow> fcsv_out (snd (apply_all_afid_models E subject_paths fcsv_paths
               feature_offsets_path model_dir_path padding size' sampling_rate w))
            = fcsv_out w)"
proof (intro conjI impI allI)
  assume "fst (apply_all_afid_models E subject_paths fcsv_paths feature_offsets_path
           model_dir_path padding size' sampling_rate w) = Inr ()"
  then show "\<exists>fo arr_0 arr_1 rows.
              np_load E feature_offsets_path = Inr fo
            \<and> fo ''arr_0'' = Some arr_0 \<and> fo ''arr_1'' = Some arr_1
            \<and> fcsv_out (snd (apply_all_afid_models E subject_paths fcsv_paths
                   feature_offsets_path model_dir_path padding size' sampling_rate w))
                = fcsv_out w @ [rows]
            \<and> length rows = 32
            \<and> (\<forall>i<32. \<exists>c.
                  fst (apply_afid_model E (int i + 1) subject_paths fcsv_paths model_dir_path
                         (arr_0, arr_1) padding size' sampling_rate w) = Inr c
                \<and> rows ! i = astype_int_row c)"
    by (rule run_rows)
next
  assume "np_load E feature_offsets_path = Inr fo
      \<and> fo ''arr_0'' = Some a0 \<and> fo ''arr_1'' = Some a1
      \<and> 1 \<le> n \<and> n \<le> 32
      \<and> fst (apply_afid_model E n subject_paths fcsv_paths model_dir_path
                (a0, a1) padding size' sampling_rate w) = Inl e"
  then have a: "np_load E feature_offsets_path = Inr fo"
    "fo ''arr_0'' = Some a0" "fo ''arr_1'' = Some a1" "1 \<le> n" "n \<le> 32"
    "fst (apply_afid_model E n subject_paths fcsv_paths model_dir_path
                (a0, a1) padding size' sampling_rate w) = Inl e"
    by simp_all
  show "\<exists>e'. fst (apply_all_afid_models E subject_paths fcsv_paths feature_offsets_path
                       model_dir_path padding size' sampling_rate w) = Inl e'"
    by (rule run_fails [OF a])
next
  fix e
  assume "fst (apply_all_afid_models E subject_paths fcsv_paths feature_offsets_path
               model_dir_path padding size' sampling_rate w) = Inl e"
  then show "fcsv_out (snd (apply_all_afid_models E subject_paths fcsv_paths
               feature_offsets_path model_dir_path padding size' sampling_rate w))
            = fcsv_out w"
    by (rule run_Inl)
qed

theorem aggregator_32_rows_all_or_nothing_witness:
  "fst (apply_all_afid_models stub_env [''sub-01.nii''] [''sub-01.fcsv''] ''offsets.npz''
          ''models'' 0 1 5 fresh_world) = Inr ()
 \<and> (\<exists>rows. fcsv_out (snd (apply_all_afid_models stub_env [''sub-01.nii'']
                 [''sub-01.fcsv''] ''offsets.npz'' ''models'' 0 1 5 fresh_world)) = [rows]
           \<and> length rows = 32 \<and> rows ! 0 = (2, 2, 2) \<and> rows ! 31 = (2, 2, 2))
 \<and> fst (apply_all_afid_models no_models_env [''sub-01.nii''] [''sub-01.fcsv'']
          ''offsets.npz'' ''models'' 0 1 5 fresh_world) = Inl FileNotFoundError
 \<and> fcsv_out (snd (apply_all_afid_models no_models_env [''sub-01.nii''] [''sub-01.fcsv'']
          ''offsets.npz'' ''models'' 0 1 5 fresh_world)) = []"
proof -
  note thm_stub = aggregator_32_rows_all_or_nothing [where E = stub_env
      and subject_paths = "[''sub-01.nii'']" and fcsv_paths = "[''sub-01.fcsv'']"
      and feature_offsets_path = "''offsets.npz''" and model_dir_path = "''models''"
      and padding = 0 and size' = 1 and sampling_rate = 5 and w = fresh_world]
  note thm_none = aggregator_32_rows_all_or_nothing [where E = no_models_env
      and subject_paths = "[''sub-01.nii'']" and fcsv_paths = "[''sub-01.fcsv'']"
      and feature_offsets_path = "''offsets.npz''" and model_dir_path = "''models''"
      and padding = 0 and size' = 1 and sampling_rate = 5 and w = fresh_world]
  have ok: "fst (apply_all_afid_models stub_env [''sub-01.nii''] [''sub-01.fcsv'']
              ''offsets.npz'' ''models'' 0 1 5 fresh_world) = Inr ()"
    by (simp add: stub_run)
  from thm_stub [THEN conjunct1, THEN mp, OF ok] obtain fo arr_0 arr_1 rows where
    r: "fcsv_out (snd (apply_all_afid_models stub_env [''sub-01.nii''] [''sub-01.fcsv'']
           ''offsets.npz'' ''models'' 0 1 5 fresh_world)) = fcsv_out fresh_world @ [rows]"
       "length rows = 32"
       "\<forall>i<32. \<exists>c.
           fst (apply_afid_model stub_env (int i + 1) [''sub-01.nii''] [''sub-01.fcsv'']
                  ''models'' (arr_0, arr_1) 0 1 5 fresh_world) = Inr c
         \<and> rows ! i = astype_int_row c"
    by blast
  from r(3) [rule_format, of 0] have r0: "rows ! 0 = (2, 2, 2)"
    by (auto simp: stub_locator astype_int_def fits_int64_def)
  from r(3) [rule_format, of 31] have r31: "rows ! 31 = (2, 2, 2)"
    by (auto simp: stub_locator astype_int_def fits_int64_def)
  from r(1,2) r0 r31 have rows: "\<exists>rows. fcsv_out (snd (apply_all_afid_models stub_env
       [''sub-01.nii''] [''sub-01.fcsv''] ''offsets.npz'' ''models'' 0 1 5 fresh_world))
         = [rows] \<and> length rows = 32 \<and> rows ! 0 = (2, 2, 2) \<and> rows ! 31 = (2, 2, 2)"
    by (simp add: fresh_world_def)
  have bad: "fst (apply_all_afid_models no_models_env [''sub-01.nii''] [''sub-01.fcsv'']
          ''offsets.npz'' ''models'' 0 1 5 fresh_world) = Inl FileNotFoundError"
    by (simp add: no_models_run)
  with thm_none have "fcsv_out (snd (apply_all_afid_models no_models_env [''sub-01.nii'']
          [''sub-01.fcsv''] ''offsets.npz'' ''models'' 0 1 5 fresh_world))
        = fcsv_out fresh_world"
    by blast
  then have none: "fcsv_out (snd (apply_all_afid_models no_models_env [''sub-01.nii'']
          [''sub-01.fcsv''] ''offsets.npz'' ''models'' 0 1 5 fresh_world)) = []"
    by (simp add: fresh_world_def)
  from ok rows bad none show ?thesis by blast
qed

text \<open>
  C10. The claim: in every completed run each component written is the world coordinate
  truncated toward zero. A transform with a voxel size of 5e18 maps the voxel (2,2,2)
  to the world coordinate (1e19, 2, 2); 1e19 is beyond the 64-bit range, the run
  completes, and the first component written is \<open>-2^63\<close>, which is not 1e19 truncated.
\<close>

theorem written_components_counterexample:
  "fst (apply_all_afid_models huge_env [''sub-01.nii''] [''sub-01.fcsv''] ''offsets.npz''
          ''models'' 0 1 5 fresh_world) = Inr ()
 \<and> fst (apply_afid_model huge_env 1 [''sub-01.nii''] [''sub-01.fcsv''] ''models''
          ((), ()) 0 1 5 fresh_world) = Inr (10000000000000000000, 2, 2)
 \<and> fcsv_out (snd (apply_all_afid_models huge_env [''sub-01.nii''] [''sub-01.fcsv'']
          ''offsets.npz'' ''models'' 0 1 5 fresh_world))
      = [replicate 32 (- (2 ^ 63), 2, 2)]
 \<and> \<not> truncation_toward_zero 10000000000000000000 (- (2 ^ 63))"
  by (simp add: huge_run huge_locator fresh_world_def truncation_toward_zero_def)

text \<open>
  C10, as amended. In a completed run every component written is the cast
  \<open>astype(int)\<close> of the corresponding world coordinate, a 64-bit integer. For a
  coordinate that fits in 64 bits that cast is the truncation toward zero, the only
  integer with that property; it is not rounding to the nearest integer: 2.9 gives 2
  and not 3, -1.7 gives -1 and not -2.
\<close>

theorem written_components_truncated_within_int64:
  "(fst (apply_all_afid_models E subject_paths fcsv_paths feature_offsets_path
           model_dir_path padding size' sampling_rate w) = Inr ()
      \<longrightarrow> (\<exists>fo arr_0 arr_1 rows.
              np_load E feature_offsets_path = Inr fo
            \<and> fo ''arr_0'' = Some arr_0 \<and> fo ''arr_1'' = Some arr_1
            \<and> fcsv_out (snd (apply_all_afid_models E subject_paths fcsv_paths
                   feature_offsets_path model_dir_path padding size' sampling_rate w))
                = fcsv_out w @ [rows]
            \<and> (\<forall>i<32. \<exists>x y z kx ky kz.
                  fst (apply_afid_model E (int i + 1) subject_paths fcsv_paths model_dir_path
                         (arr_0, arr_1) padding size' sampling_rate w) = Inr (x, y, z)
                \<and> rows ! i = (kx, ky, kz)
                \<and> kx = astype_int x \<and> ky = astype_int y \<and> kz = astype_int z
                \<and> - (2 ^ 63) \<le> kx \<and> kx \<le> 2 ^ 63 - 1
                \<and> - (2 ^ 63) \<le> ky \<and> ky \<le> 2 ^ 63 - 1
                \<and> - (2 ^ 63) \<le> kz \<and> kz \<le> 2 ^ 63 - 1
                \<and> (fits_int64 x \<longrightarrow> truncation_toward_zero x kx)
                \<and> (fits_int64 y \<longrightarrow> truncation_toward_zero y ky)
                \<and> (fits_int64 z \<longrightarrow> truncation_toward_zero z kz))))
 \<and> (\<forall>x k. fits_int64 x \<longrightarrow> (truncation_toward_zero x k \<longleftrightarrow> k = astype_int x))
 \<and> fits_int64 2.9 \<and> astype_int 2.9 = 2 \<and> round (2.9 :: real) = 3
 \<and> fits_int64 (- 1.7) \<and> astype_int (- 1.7) = - 1 \<and> round (- 1.7 :: real) = - 2"
proof (intro conjI impI allI)
  assume "fst (apply_all_afid_models E subject_paths fcsv_paths feature_offsets_path
           model_dir_path padding size' sampling_rate w) = Inr ()"
  from run_rows [OF this] obtain fo arr_0 arr_1 rows where
    h: "np_load E feature_offsets_path = Inr fo"
       "fo ''arr_0'' = Some arr_0" "fo ''arr_1'' = Some arr_1"
       "fcsv_out (snd (apply_all_afid_models E subject_paths fcsv_paths
                   feature_offsets_path model_dir_path padding size' sampling_rate w))
                = fcsv_out w @ [rows]"
       "\<forall>i<32. \<exists>c.
           fst (apply_afid_model E (int i + 1) subject_paths fcsv_paths model_dir_path
                  (arr_0, arr_1) padding size' sampling_rate w) = Inr c
         \<and> rows ! i = astype_int_row c"
    by blast
  have "\<forall>i<32. \<exists>x y z kx ky kz.
                  fst (apply_afid_model E (int i + 1) subject_paths fcsv_paths model_dir_path
                         (arr_0, arr_1) padding size' sampling_rate w) = Inr (x, y, z)
                \<and> rows ! i = (kx, ky, kz)
                \<and> kx = astype_int x \<and> ky = astype_int y \<and> kz = astype_int z
                \<and> - (2 ^ 63) \<le> kx \<and> kx \<le> 2 ^ 63 - 1
                \<and> - (2 ^ 63) \<le> ky \<and> ky \<le> 2 ^ 63 - 1
                \<and> - (2 ^ 63) \<le> kz \<and> kz \<le> 2 ^ 63 - 1
                \<and> (fits_int64 x \<longrightarrow> truncation_toward_zero x kx)
                \<and> (fits_int64 y \<longrightarrow> truncation_toward_zero y ky)
                \<and> (fits_int64 z \<longrightarrow> truncation_toward_zero z kz)"
  proof (intro allI impI)
    fix i :: nat assume "i < 32"
    with h(5) obtain c where
      c: "fst (apply_afid_model E (int i + 1) subject_paths fcsv_paths model_dir_path
                  (arr_0, arr_1) padding size' sampling_rate w) = Inr c"
         "rows ! i = astype_int_row c"
      by blast
    obtain x y z where xyz: "c = (x, y, z)" by (metis prod_cases3)
    from c xyz have
      "fst (apply_afid_model E (int i + 1) subject_paths fcsv_paths model_dir_path
                  (arr_0, arr_1) padding size' sampling_rate w) = Inr (x, y, z)
       \<and> rows ! i = (astype_int x, astype_int y, astype_int z)
       \<and> astype_int x = astype_int x \<and> astype_int y = astype_int y
       \<and> astype_int z = astype_int z
       \<and> - (2 ^ 63) \<le> astype_int x \<and> astype_int x \<le> 2 ^ 63 - 1
       \<and> - (2 ^ 63) \<le> astype_int y \<and> astype_int y \<le> 2 ^ 63 - 1
       \<and> - (2 ^ 63) \<le> astype_int z \<and> astype_int z \<le> 2 ^ 63 - 1
       \<and> (fits_int64 x \<longrightarrow> truncation_toward_zero x (astype_int x))
       \<and> (fits_int64 y \<longrightarrow> truncation_toward_zero y (astype_int y))
       \<and> (fits_int64 z \<longrightarrow> truncation_toward_zero z (astype_int z))"
      using astype_int_int64 [of x] astype_int_int64 [of y] astype_int_int64 [of z]
      by (simp add: astype_int_truncation)
    then show "\<exists>x y z kx ky kz.
                  fst (apply_afid_model E (int i + 1) subject_paths fcsv_paths model_dir_path
                         (arr_0, arr_1) padding size' sampling_rate w) = Inr (x, y, z)
                \<and> rows ! i = (kx, ky, kz)
                \<and> kx = astype_int x \<and> ky = astype_int y \<and> kz = astype_int z
                \<and> - (2 ^ 63) \<le> kx \<and> kx \<le> 2 ^ 63 - 1
                \<and> - (2 ^ 63) \<le> ky \<and> ky \<le> 2 ^ 63 - 1
                \<and> - (2 ^ 63) \<le> kz \<and> kz \<le> 2 ^ 63 - 1
                \<and> (fits_int64 x \<longrightarrow> truncation_toward_zero x kx)
                \<and> (fits_int64 y \<longrightarrow> truncation_toward_zero y ky)
                \<and> (fits_int64 z \<longrightarrow> truncation_toward_zero z kz)"
      by blast
  qed
  with h(1,2,3,4) show "\<exists>fo arr_0 arr_1 rows.
              np_load E feature_offsets_path = Inr fo
            \<and> fo ''arr_0'' = Some arr_0 \<and> fo ''arr_1'' = Some arr_1
            \<and> fcsv_out (snd (apply_all_afid_models E subject_paths fcsv_paths
                   feature_offsets_path model_dir_path padding size' sampling_rate w))
                = fcsv_out w @ [rows]
            \<and> (\<forall>i<32. \<exists>x y z kx ky kz.
                  fst (apply_afid_model E (int i + 1) subject_paths fcsv_paths model_dir_path
                         (arr_0, arr_1) padding size' sampling_rate w) = Inr (x, y, z)
                \<and> rows ! i = (kx, ky, kz)
                \<and> kx = astype_int x \<and> ky = astype_int y \<and> kz = astype_int z
                \<and> - (2 ^ 63) \<le> kx \<and> kx \<le> 2 ^ 63 - 1
                \<and> - (2 ^ 63) \<le> ky \<and> ky \<le> 2 ^ 63 - 1
                \<and> - (2 ^ 63) \<le> kz \<and> kz \<le> 2 ^ 63 - 1
                \<and> (fits_int64 x \<longrightarrow> truncation_toward_zero x kx)
                \<and> (fits_int64 y \<longrightarrow> truncation_toward_zero y ky)
                \<and> (fits_int64 z \<longrightarrow> truncation_toward_zero z kz))"
    by blast
next
  fix x k
  assume "fits_int64 x"
  then show "truncation_toward_zero x k \<longleftrightarrow> k = astype_int x"
    using truncation_unique astype_int_truncation by blast
qed (simp_all add: astype_int_def fits_int64_def round_def)

theorem written_components_truncated_within_int64_witness:
  "fst (apply_all_afid_models shifted_env [''sub-01.nii''] [''sub-01.fcsv''] ''offsets.npz''
          ''models'' 0 1 5 fresh_world) = Inr ()
 \<and> fst (apply_afid_model shifted_env 1 [''sub-01.nii''] [''sub-01.fcsv''] ''models''
          ((), ()) 0 1 5 fresh_world) = Inr (2.9, - 1.7, 2.5)
 \<and> fits_int64 2.9 \<and> fits_int64 (- 1.7) \<and> fits_int64 2.5
 \<and> (\<exists>rows. fcsv_out (snd (apply_all_afid_models shifted_env [''sub-01.nii'']
                 [''sub-01.fcsv''] ''offsets.npz'' ''models'' 0 1 5 fresh_world)) = [rows]
           \<and> rows ! 0 = (2, - 1, 2)
           \<and> truncation_toward_zero 2.9 (fst (rows ! 0)))"
proof -
  have ok: "fst (apply_all_afid_models shifted_env [''sub-01.nii''] [''sub-01.fcsv'']
              ''offsets.npz'' ''models'' 0 1 5 fresh_world) = Inr ()"
    by (simp add: shifted_run)
  have loc: "fst (apply_afid_model shifted_env 1 [''sub-01.nii''] [''sub-01.fcsv'']
              ''models'' ((), ()) 0 1 5 fresh_world) = Inr (2.9, - 1.7, 2.5)"
    by (simp add: shifted_locator)
  have fits: "fits_int64 2.9" "fits_int64 (- 1.7)" "fits_int64 2.5"
    by (simp_all add: fits_int64_def)
  from written_components_truncated_within_int64 [where E = shifted_env
      and subject_paths = "[''sub-01.nii'']" and fcsv_paths = "[''sub-01.fcsv'']"
      and feature_offsets_path = "''offsets.npz''" and model_dir_path = "''models''"
      and padding = 0 and size' = 1 and sampling_rate = 5 and w = fresh_world,
      THEN conjunct1, THEN mp, OF ok]
  obtain fo arr_0 arr_1 rows where
    r: "fcsv_out (snd (apply_all_afid_models shifted_env [''sub-01.nii''] [''sub-01.fcsv'']
           ''offsets.npz'' ''models'' 0 1 5 fresh_world)) = fcsv_out fresh_world @ [rows]"
       "\<forall>i<32. \<exists>x y z kx ky kz.
           fst (apply_afid_model shifted_env (int i + 1) [''sub-01.nii''] [''sub-01.fcsv'']
                  ''models'' (arr_0, arr_1) 0 1 5 fresh_world) = Inr (x, y, z)
         \<and> rows ! i = (kx, ky, kz)
         \<and> kx = astype_int x \<and> ky = astype_int y \<and> kz = astype_int z
         \<and> - (2 ^ 63) \<le> kx \<and> kx \<le> 2 ^ 63 - 1
         \<and> - (2 ^ 63) \<le> ky \<and> ky \<le> 2 ^ 63 - 1
         \<and> - (2 ^ 63) \<le> kz \<and> kz \<le> 2 ^ 63 - 1
         \<and> (fits_int64 x \<longrightarrow> truncation_toward_zero x kx)
         \<and> (fits_int64 y \<longrightarrow> truncation_toward_zero y ky)
         \<and> (fits_int64 z \<longrightarrow> truncation_toward_zero z kz)"
    by blast
  have lt: "(0::nat) < 32" by simp
  from r(2) [rule_format, OF lt] obtain x y z kx ky kz where
    a: "fst (apply_afid_model shifted_env (int 0 + 1) [''sub-01.nii''] [''sub-01.fcsv'']
              ''models'' (arr_0, arr_1) 0 1 5 fresh_world) = Inr (x, y, z)"
       "rows ! 0 = (kx, ky, kz)" "kx = astype_int x" "ky = astype_int y" "kz = astype_int z"
       "fits_int64 x \<longrightarrow> truncation_toward_zero x kx"
    by blast
  have "fst (apply_afid_model shifted_env (int 0 + 1) [''sub-01.nii''] [''sub-01.fcsv'']
              ''models'' (arr_0, arr_1) 0 1 5 fresh_world) = Inr (2.9, - 1.7, 2.5)"
    by (simp only: shifted_locator fst_conv)
  with a(1) have v: "x = 2.9" "y = - 1.7" "z = 2.5"
    by (metis Pair_inject sum.inject(2))+
  with a(2,3,4,5) have "rows ! 0 = (astype_int 2.9, astype_int (- 1.7), astype_int 2.5)"
    by (simp only:)
  then have r0: "rows ! 0 = (2, - 1, 2)"
    by (simp add: astype_int_def fits_int64_def)
  from a(6) v(1) fits(1) have "truncation_toward_zero 2.9 kx" by (simp only:)
  with a(2) have t: "truncation_toward_zero 2.9 (fst (rows ! 0))" by (simp only: fst_conv)
  from r(1) r0 t have "\<exists>rows. fcsv_out (snd (apply_all_afid_models shifted_env
        [''sub-01.nii''] [''sub-01.fcsv''] ''offsets.npz'' ''models'' 0 1 5 fresh_world))
          = [rows] \<and> rows ! 0 = (2, - 1, 2) \<and> truncation_toward_zero 2.9 (fst (rows ! 0))"
    by (simp add: fresh_world_def)
  with ok loc fits show ?thesis by blast
qed

end
